theory Spec2Isabelle
  imports Complex_Main "HOL-Library.AList" "HOL-Library.Multiset" "HOL-Library.State_Monad"
begin

section \<open>Go integers\<close>

text \<open>
  Go's \<^verbatim>\<open>int\<close> (64-bit on the platforms the service targets), \<^verbatim>\<open>int64\<close> and
  \<^verbatim>\<open>int32\<close> are modelled as mathematical integers with the two's-complement
  wrap-around written out at every operation and conversion that can leave the range.
  Go's integer division truncates towards zero.
\<close>

definition wrap_signed :: "nat \<Rightarrow> int \<Rightarrow> int" where
  "wrap_signed w x = (x + 2 ^ (w - 1)) mod 2 ^ w - 2 ^ (w - 1)"

definition int64 :: "int \<Rightarrow> int" where
  "int64 x = wrap_signed 64 x"

definition int32 :: "int \<Rightarrow> int" where
  "int32 x = wrap_signed 32 x"

definition go_quot :: "int \<Rightarrow> int \<Rightarrow> int" where
  "go_quot a b = sgn a * sgn b * (\<bar>a\<bar> div \<bar>b\<bar>)"

text \<open>\<^verbatim>\<open>fmt.Sprintf("%d", n)\<close> for a non-negative \<open>n\<close>.\<close>

fun dec :: "nat \<Rightarrow> string" where
  "dec n = (if n < 10 then [char_of (48 + n)] else dec (n div 10) @ [char_of (48 + n mod 10)])"

declare dec.simps [simp del]

text \<open>\<^verbatim>\<open>string(runes)\<close>: the UTF-8 encoding of a code point (surrogates do not occur).\<close>

definition utf8_rune :: "nat \<Rightarrow> string" where
  "utf8_rune c =
     (if c < 0x80 then [char_of c]
      else if c < 0x800 then [char_of (0xC0 + c div 64), char_of (0x80 + c mod 64)]
      else if c < 0x10000 then
        [char_of (0xE0 + c div 4096), char_of (0x80 + c div 64 mod 64), char_of (0x80 + c mod 64)]
      else
        [char_of (0xF0 + c div 262144), char_of (0x80 + c div 4096 mod 64),
         char_of (0x80 + c div 64 mod 64), char_of (0x80 + c mod 64)])"

section \<open>Documents\<close>

text \<open>
  \<^verbatim>\<open>models.Content\<close> is \<^verbatim>\<open>map[string]interface{}\<close>. A (non-nil) Go map is an
  association list with distinct keys; \<open>content[k] = v\<close> is \<^const>\<open>AList.update\<close>. The order
  of the pairs is an artefact of the model (Go iterates maps in no fixed order) and no
  result below depends on it. A possibly-nil map is a \<open>Content option\<close>.
\<close>

datatype jvalue =
    JNull
  | JString string
  | JNumber int
  | JBool bool
  | JObject "(string \<times> jvalue) list"
  | JArray "jvalue list"

type_synonym Content = "(string \<times> jvalue) list"

definition keys :: "Content \<Rightarrow> string set" where
  "keys c = fst ` set c"

text \<open>\<^verbatim>\<open>for k, v := range src { dst[k] = v }\<close>\<close>

definition assign_all :: "Content \<Rightarrow> Content \<Rightarrow> Content" where
  "assign_all src dst = fold (\<lambda>kv c. AList.update (fst kv) (snd kv) c) src dst"

section \<open>The process environment of the generator\<close>

text \<open>
  The generator reads three ambient sources: the process-wide \<^verbatim>\<open>math/rand\<close> generator,
  \<^verbatim>\<open>uuid.New()\<close> and the clock. Each is a stream of readings with a cursor, so that every
  call consumes one reading, in the order the source makes the calls. A UUID is
  represented by its canonical 36-character text; instants are microseconds since the
  Unix epoch. Formatting a time in the process's local zone is a parameter.
\<close>

type_synonym UUID = string

record world =
  rand_src :: "nat \<Rightarrow> nat"
  rand_pos :: nat
  uuid_src :: "nat \<Rightarrow> UUID"
  uuid_pos :: nat
  clock :: "nat \<Rightarrow> int"
  clock_pos :: nat
  AddDate_Format :: "int \<Rightarrow> int \<Rightarrow> string"
  Format_RFC3339 :: "int \<Rightarrow> string"

definition second :: int where
  "second = 1000000"

text \<open>\<^verbatim>\<open>rand.Intn(n)\<close>; every call site passes a positive constant.\<close>

definition rand_Intn :: "nat \<Rightarrow> (world, nat) state" where
  "rand_Intn n = State (\<lambda>w. (rand_src w (rand_pos w) mod n, w\<lparr>rand_pos := Suc (rand_pos w)\<rparr>))"

definition uuid_New :: "(world, UUID) state" where
  "uuid_New = State (\<lambda>w. (uuid_src w (uuid_pos w), w\<lparr>uuid_pos := Suc (uuid_pos w)\<rparr>))"

definition time_Now :: "(world, int) state" where
  "time_Now = State (\<lambda>w. (clock w (clock_pos w), w\<lparr>clock_pos := Suc (clock_pos w)\<rparr>))"

text \<open>\<^verbatim>\<open>xs[rand.Intn(len(xs))]\<close>\<close>

definition pick :: "'a list \<Rightarrow> (world, 'a) state" where
  "pick xs = do { i \<leftarrow> rand_Intn (length xs); State_Monad.return (xs ! i) }"

text \<open>A composite map literal: the value expressions are evaluated in lexical order.\<close>

fun literal :: "(string \<times> (world, jvalue) state) list \<Rightarrow> (world, Content) state" where
  "literal [] = State_Monad.return []"
| "literal (kg # fs) =
     do { v \<leftarrow> snd kg; c \<leftarrow> literal fs; State_Monad.return ((fst kg, v) # c) }"

text \<open>\<^verbatim>\<open>for i := range is { acc = body(i, acc) }\<close>\<close>

fun for_range :: "nat list \<Rightarrow> (nat \<Rightarrow> 'a \<Rightarrow> (world, 'a) state) \<Rightarrow> 'a \<Rightarrow> (world, 'a) state" where
  "for_range [] body acc = State_Monad.return acc"
| "for_range (i # is) body acc = do { acc' \<leftarrow> body i acc; for_range is body acc' }"

section \<open>Content generator (utils/generator.go)\<close>

definition getRandomUserAgent :: "(world, string) state" where
  "getRandomUserAgent = pick
     [''Mozilla/5.0 (Windows NT 10.0; Win64; x64) AppleWebKit/537.36'',
      ''Mozilla/5.0 (Macintosh; Intel Mac OS X 10_15_7) AppleWebKit/537.36'',
      ''Mozilla/5.0 (X11; Linux x86_64) AppleWebKit/537.36'',
      ''Mozilla/5.0 (iPhone; CPU iPhone OS 14_7_1 like Mac OS X)'',
      ''Mozilla/5.0 (Android 11; Mobile; rv:68.0) Gecko/68.0 Firefox/88.0'']"

definition getRandomAction :: "(world, string) state" where
  "getRandomAction = pick
     [''login'', ''logout'', ''view'', ''click'', ''purchase'', ''search'', ''filter'',
      ''create'', ''update'', ''delete'', ''download'', ''upload'', ''share'', ''comment'',
      ''like'', ''dislike'', ''subscribe'', ''unsubscribe'', ''follow'', ''unfollow'']"

definition getRandomStatus :: "(world, string) state" where
  "getRandomStatus = pick
     [''success'', ''failure'', ''pending'', ''timeout'', ''error'', ''warning'', ''info'']"

definition getRandomProtocol :: "(world, string) state" where
  "getRandomProtocol = pick [''HTTP'', ''HTTPS'', ''WebSocket'', ''gRPC'', ''TCP'', ''UDP'']"

definition getRandomErrorCode :: "(world, string) state" where
  "getRandomErrorCode = pick
     [''200'', ''201'', ''400'', ''401'', ''403'', ''404'', ''500'', ''502'', ''503'', ''504'']"

definition getRandomRegion :: "(world, string) state" where
  "getRandomRegion = pick
     [''us-east-1'', ''us-west-2'', ''eu-west-1'', ''ap-southeast-1'', ''ap-northeast-1'']"

definition getRandomEnvironment :: "(world, string) state" where
  "getRandomEnvironment = pick [''production'', ''staging'', ''development'', ''testing'']"

definition getRandomFeatureFlag :: "(world, string) state" where
  "getRandomFeatureFlag = pick
     [''new_ui'', ''beta_search'', ''advanced_analytics'', ''real_time_sync'', ''auto_backup'']"

definition getRandomSegment :: "(world, string) state" where
  "getRandomSegment = pick [''premium'', ''basic'', ''trial'', ''enterprise'', ''free'']"

definition getRandomTier :: "(world, string) state" where
  "getRandomTier = pick [''bronze'', ''silver'', ''gold'', ''platinum'', ''diamond'']"

definition getRandomPlan :: "(world, string) state" where
  "getRandomPlan = pick
     [''starter'', ''professional'', ''business'', ''enterprise'', ''custom'']"

definition getRandomCountry :: "(world, string) state" where
  "getRandomCountry = pick
     [''US'', ''UK'', ''CA'', ''AU'', ''DE'', ''FR'', ''JP'', ''SG'', ''IN'', ''BR'']"

definition getRandomCity :: "(world, string) state" where
  "getRandomCity = pick
     [''New York'', ''London'', ''Toronto'', ''Sydney'', ''Berlin'', ''Paris'', ''Tokyo'',
      ''Singapore'', ''Mumbai'',
      ''S'' @ [char_of (195 :: nat), char_of (131 :: nat), char_of (194 :: nat),
               char_of (163 :: nat)] @ ''o Paulo'']"

definition getRandomTimezone :: "(world, string) state" where
  "getRandomTimezone = pick
     [''UTC'', ''America/New_York'', ''Europe/London'', ''Asia/Tokyo'', ''Australia/Sydney'']"

definition getRandomLanguage :: "(world, string) state" where
  "getRandomLanguage = pick
     [''en'', ''es'', ''fr'', ''de'', ''ja'', ''zh'', ''pt'', ''ru'', ''ar'', ''hi'']"

definition getRandomCurrency :: "(world, string) state" where
  "getRandomCurrency = pick
     [''USD'', ''EUR'', ''GBP'', ''JPY'', ''CAD'', ''AUD'', ''CHF'', ''CNY'', ''INR'', ''BRL'']"

text \<open>
  \<^verbatim>\<open>generateJapaneseString\<close>: one draw for the script, one for the code point
  (hiragana from 0x3040, katakana from 0x30A0, kanji from 0x4E00), \<open>length\<close> times.
\<close>

fun japaneseRunes :: "nat \<Rightarrow> (world, nat list) state" where
  "japaneseRunes 0 = State_Monad.return []"
| "japaneseRunes (Suc n) =
     do { kind \<leftarrow> rand_Intn 3;
          r \<leftarrow> (if kind = 0 then do { k \<leftarrow> rand_Intn (0x309F - 0x3040 + 1);
                                        State_Monad.return (0x3040 + k) }
                else if kind = 1 then do { k \<leftarrow> rand_Intn (0x30FF - 0x30A0 + 1);
                                             State_Monad.return (0x30A0 + k) }
                else do { k \<leftarrow> rand_Intn 0x1000; State_Monad.return (0x4E00 + k) });
          rs \<leftarrow> japaneseRunes n;
          State_Monad.return (r # rs) }"

definition generateJapaneseString :: "nat \<Rightarrow> (world, string) state" where
  "generateJapaneseString len =
     do { runes \<leftarrow> japaneseRunes len; State_Monad.return (concat (map utf8_rune runes)) }"

text \<open>Value expressions that recur in the literals.\<close>

definition uuid_string :: "(world, jvalue) state" where
  "uuid_string = do { u \<leftarrow> uuid_New; State_Monad.return (JString u) }"

definition sprintf_d :: "string \<Rightarrow> nat \<Rightarrow> nat \<Rightarrow> (world, jvalue) state" where
  "sprintf_d pre n off =
     do { a \<leftarrow> rand_Intn n; State_Monad.return (JString (pre @ dec (a + off))) }"

definition sprintf_d_d :: "string \<Rightarrow> nat \<Rightarrow> nat \<Rightarrow> (world, jvalue) state" where
  "sprintf_d_d pre n m =
     do { a \<leftarrow> rand_Intn n; b \<leftarrow> rand_Intn m;
          State_Monad.return (JString (pre @ dec a @ ''.'' @ dec b)) }"

definition intn_number :: "nat \<Rightarrow> nat \<Rightarrow> (world, jvalue) state" where
  "intn_number n off = do { a \<leftarrow> rand_Intn n; State_Monad.return (JNumber (int a + int off)) }"

definition intn_bool :: "(world, jvalue) state" where
  "intn_bool = do { a \<leftarrow> rand_Intn 2; State_Monad.return (JBool (a = 1)) }"

definition str :: "(world, string) state \<Rightarrow> (world, jvalue) state" where
  "str g = do { s \<leftarrow> g; State_Monad.return (JString s) }"

definition japanese_field :: "nat \<Rightarrow> nat \<Rightarrow> (world, jvalue) state" where
  "japanese_field n off = do { a \<leftarrow> rand_Intn n; s \<leftarrow> generateJapaneseString (a + off);
                               State_Monad.return (JString s) }"

definition generateSmallContent :: "(world, Content) state" where
  "generateSmallContent = literal
     [(''event_id'', uuid_string),
      (''session_id'', sprintf_d ''sess_'' 100000 0),
      (''ip_address'', sprintf_d_d ''192.168.'' 255 255),
      (''user_agent'', str getRandomUserAgent),
      (''timestamp'', do { t \<leftarrow> time_Now; State_Monad.return (JNumber (t div second)) }),
      (''action_type'', str getRandomAction),
      (''status'', str getRandomStatus),
      (''duration'', intn_number 5000 100),
      (''device_id'', sprintf_d ''device_'' 10000 0)]"

definition additionalFields :: "(world, Content) state" where
  "additionalFields = literal
     [(''request_id'', uuid_string),
      (''correlation_id'', sprintf_d ''corr_'' 1000000 0),
      (''source_ip'', sprintf_d_d ''10.0.'' 255 255),
      (''destination_ip'', sprintf_d_d ''172.16.'' 255 255),
      (''protocol'', str getRandomProtocol),
      (''port'', intn_number 65535 0),
      (''bytes_sent'', intn_number 1000000 0),
      (''bytes_received'', intn_number 1000000 0),
      (''latency'', intn_number 1000 0),
      (''error_code'', str getRandomErrorCode),
      (''retry_count'', intn_number 5 0),
      (''cache_hit'', intn_bool),
      (''compression'', intn_bool),
      (''encrypted'', intn_bool),
      (''region'', str getRandomRegion),
      (''datacenter'', sprintf_d ''dc-'' 10 1),
      (''service_version'',
         do { a \<leftarrow> rand_Intn 5; b \<leftarrow> rand_Intn 10; c \<leftarrow> rand_Intn 20;
              State_Monad.return
                (JString (''v'' @ dec (a + 1) @ ''.'' @ dec b @ ''.'' @ dec c)) }),
      (''build_number'', intn_number 10000 0),
      (''environment'', str getRandomEnvironment),
      (''tenant_id'', uuid_string),
      (''org_id'', sprintf_d ''org_'' 1000 0),
      (''team_id'', sprintf_d ''team_'' 100 0),
      (''project_id'', sprintf_d ''proj_'' 50 0),
      (''feature_flag'', str getRandomFeatureFlag),
      (''ab_test'', sprintf_d ''test_'' 100 0),
      (''experiment_id'', uuid_string),
      (''segment'', str getRandomSegment),
      (''cohort'', sprintf_d ''cohort_'' 10 1),
      (''tier'', str getRandomTier),
      (''plan'', str getRandomPlan),
      (''quota'', intn_number 10000 0),
      (''usage'', intn_number 1000 0),
      (''limit'', intn_number 5000 0),
      (''remaining'', intn_number 1000 0),
      (''renewal_date'',
         do { t \<leftarrow> time_Now; m \<leftarrow> rand_Intn 12; w \<leftarrow> State_Monad.get;
              State_Monad.return (JString (AddDate_Format w t (int m))) }),
      (''last_login'',
         do { t \<leftarrow> time_Now; n \<leftarrow> rand_Intn 86400; w \<leftarrow> State_Monad.get;
              State_Monad.return (JString (Format_RFC3339 w (t - int n * second))) }),
      (''first_login'',
         do { t \<leftarrow> time_Now; n \<leftarrow> rand_Intn (86400 * 30); w \<leftarrow> State_Monad.get;
              State_Monad.return (JString (Format_RFC3339 w (t - int n * second))) }),
      (''session_count'', intn_number 100 0),
      (''total_sessions'', intn_number 1000 0),
      (''country'', str getRandomCountry),
      (''city'', str getRandomCity),
      (''timezone'', str getRandomTimezone),
      (''language'', str getRandomLanguage),
      (''currency'', str getRandomCurrency),
      (''description'', japanese_field 100 20),
      (''notes'', japanese_field 50 10)]"

definition generateMediumContent :: "(world, Content) state" where
  "generateMediumContent =
     do { content \<leftarrow> generateSmallContent;
          extra \<leftarrow> additionalFields;
          State_Monad.return (assign_all extra content) }"

definition flat_field :: "nat \<Rightarrow> Content \<Rightarrow> (world, Content) state" where
  "flat_field i content =
     do { a \<leftarrow> rand_Intn 100000; s \<leftarrow> generateJapaneseString 5;
          State_Monad.return
            (AList.update (''field_'' @ dec i) (JString (''value_'' @ dec a @ ''_'' @ s)) content) }"

definition japanese_text_field :: "nat \<Rightarrow> Content \<Rightarrow> (world, Content) state" where
  "japanese_text_field i content =
     do { a \<leftarrow> rand_Intn 100; s \<leftarrow> generateJapaneseString (a + 20);
          State_Monad.return (AList.update (''japanese_field_'' @ dec i) (JString s) content) }"

definition nested_sub_field :: "nat \<Rightarrow> Content \<Rightarrow> (world, Content) state" where
  "nested_sub_field j nested =
     do { a \<leftarrow> rand_Intn 1000; s \<leftarrow> generateJapaneseString 5;
          State_Monad.return
            (AList.update (''nested_field_'' @ dec j)
               (JString (''nested_value_'' @ dec a @ ''_'' @ s)) nested) }"

definition nested_obj_field :: "nat \<Rightarrow> Content \<Rightarrow> (world, Content) state" where
  "nested_obj_field i content =
     do { nested \<leftarrow> for_range [0 ..< 10] nested_sub_field [];
          State_Monad.return (AList.update (''nested_obj_'' @ dec i) (JObject nested) content) }"

definition array_item :: "nat \<Rightarrow> nat \<Rightarrow> jvalue list \<Rightarrow> (world, jvalue list) state" where
  "array_item i j arr =
     do { s \<leftarrow> generateJapaneseString 5;
          State_Monad.return
            (arr @ [JString (''array_item_'' @ dec i @ ''_'' @ dec j @ ''_'' @ s)]) }"

definition array_field :: "nat \<Rightarrow> Content \<Rightarrow> (world, Content) state" where
  "array_field i content =
     do { a \<leftarrow> rand_Intn 20;
          arr \<leftarrow> for_range [0 ..< a + 1] (array_item i) [];
          State_Monad.return (AList.update (''array_field_'' @ dec i) (JArray arr) content) }"

definition generateLargeContent :: "(world, Content) state" where
  "generateLargeContent =
     do { c0 \<leftarrow> generateMediumContent;
          c1 \<leftarrow> for_range [0 ..< 500] flat_field c0;
          c2 \<leftarrow> for_range [0 ..< 200] japanese_text_field c1;
          c3 \<leftarrow> for_range [0 ..< 100] nested_obj_field c2;
          for_range [0 ..< 50] array_field c3 }"

definition GenerateSampleContent :: "string \<Rightarrow> (world, Content) state" where
  "GenerateSampleContent sz =
     (if sz = ''small'' then generateSmallContent
      else if sz = ''medium'' then generateMediumContent
      else if sz = ''large'' then generateLargeContent
      else generateSmallContent)"

section \<open>Calendar dates (the standard library's \<^verbatim>\<open>time\<close> package, UTC)\<close>

text \<open>
  \<^verbatim>\<open>time.Date(y, m, d, hh, mm, ss, 0, time.UTC)\<close> as microseconds since the Unix epoch
  (proleptic Gregorian calendar), and \<^verbatim>\<open>time.Parse("2006-01-02", s)\<close>: four digits, a
  dash, two digits, a dash, two digits and nothing else; month and day are range-checked;
  the result is midnight UTC of that day.
\<close>

definition hour :: int where
  "hour = 3600 * second"

definition isLeap :: "int \<Rightarrow> bool" where
  "isLeap y \<longleftrightarrow> y mod 4 = 0 \<and> (y mod 100 \<noteq> 0 \<or> y mod 400 = 0)"

definition daysIn :: "int \<Rightarrow> int \<Rightarrow> int" where
  "daysIn m y =
     (if m = 2 then (if isLeap y then 29 else 28)
      else if m = 4 \<or> m = 6 \<or> m = 9 \<or> m = 11 then 30 else 31)"

definition days_from_civil :: "int \<Rightarrow> int \<Rightarrow> int \<Rightarrow> int" where
  "days_from_civil y m d =
     (let y' = (if m \<le> 2 then y - 1 else y);
          era = y' div 400;
          yoe = y' - era * 400;
          doy = (153 * (if m > 2 then m - 3 else m + 9) + 2) div 5 + d - 1;
          doe = yoe * 365 + yoe div 4 - yoe div 100 + doy
      in era * 146097 + doe - 719468)"

definition time_Date :: "int \<Rightarrow> int \<Rightarrow> int \<Rightarrow> int \<Rightarrow> int \<Rightarrow> int \<Rightarrow> int" where
  "time_Date y m d hh mm ss =
     (days_from_civil y m d * 86400 + hh * 3600 + mm * 60 + ss) * second"

definition digit_of :: "char \<Rightarrow> int option" where
  "digit_of c =
     (let n = (of_char c :: nat) in if 48 \<le> n \<and> n \<le> 57 then Some (int n - 48) else None)"

definition number_of :: "string \<Rightarrow> int option" where
  "number_of cs =
     fold (\<lambda>c acc. case acc of None \<Rightarrow> None
                     | Some a \<Rightarrow> (case digit_of c of None \<Rightarrow> None | Some d \<Rightarrow> Some (10 * a + d)))
       cs (Some 0)"

definition time_Parse_date :: "string \<Rightarrow> int option" where
  "time_Parse_date s =
     (if length s \<noteq> 10 \<or> s ! 4 \<noteq> CHR ''-'' \<or> s ! 7 \<noteq> CHR ''-'' then None
      else case number_of (take 4 s) of None \<Rightarrow> None | Some y \<Rightarrow>
           (case number_of (take 2 (drop 5 s)) of None \<Rightarrow> None | Some m \<Rightarrow>
           (case number_of (drop 8 s) of None \<Rightarrow> None | Some d \<Rightarrow>
              if 1 \<le> m \<and> m \<le> 12 \<and> 1 \<le> d \<and> d \<le> daysIn m y
              then Some (time_Date y m d 0 0 0) else None)))"

section \<open>Libraries and the storage engine\<close>

text \<open>
  Functions of libraries outside the repository are parameters: \<^verbatim>\<open>uuid.Parse\<close>,
  \<^verbatim>\<open>json.Unmarshal\<close> (from the payload and the previous value of the target to an error
  and the new value of the target), \<^verbatim>\<open>json.Marshal\<close>, the \<^verbatim>\<open>strings\<close> functions,
  \<^verbatim>\<open>sort.Slice\<close> with the comparison of \<^verbatim>\<open>discoverTerms\<close>, and PostgreSQL's two text
  predicates over a row's content: \<open>pg_fts q c\<close> is
  \<^verbatim>\<open>to_tsvector('english', c::text) @@ plainto_tsquery('english', q)\<close> and \<open>pg_ilike q c\<close>
  is \<^verbatim>\<open>c::text ILIKE '%' || q || '%'\<close>.
\<close>

record env =
  uuid_Parse :: "string \<Rightarrow> UUID option"
  json_Unmarshal :: "string \<Rightarrow> Content option \<Rightarrow> string option \<times> Content option"
  json_Marshal :: "Content \<Rightarrow> string option"
  strings_Fields :: "string \<Rightarrow> string list"
  strings_Trim :: "string \<Rightarrow> string \<Rightarrow> string"
  strings_ToLower :: "string \<Rightarrow> string"
  sort_Slice :: "(string \<times> nat) list \<Rightarrow> (string \<times> nat) list"
  pg_fts :: "string \<Rightarrow> string \<Rightarrow> bool"
  pg_ilike :: "string \<Rightarrow> string \<Rightarrow> bool"

text \<open>
  A row of table \<^verbatim>\<open>logs\<close> (\<^verbatim>\<open>db.Log\<close>); every column is filled by every insert path
  of the repository.
\<close>

record Log =
  log_ID :: UUID
  log_UserID :: UUID
  log_Domain :: string
  log_Action :: string
  log_Content :: string
  log_CreatedAt :: int

record BulkInsertLogsParams =
  b_UserID :: UUID
  b_Domain :: string
  b_Action :: string
  b_Content :: string
  b_CreatedAt :: int

subsection \<open>The write path: COPY\<close>

text \<open>
  The storage seen by the loader: the table, the ids the table's default will hand out,
  and the outcome of each successive bulk copy (\<open>st_faults s i = Some e\<close>: the \<open>i\<close>-th
  copy fails with \<open>e\<close>). A copy is one statement: it stores all its rows and reports
  their number, or fails and stores none. \<open>st_copies\<close> counts the copies submitted.
\<close>

record storage =
  st_logs :: "Log list"
  st_ids :: "nat \<Rightarrow> UUID"
  st_faults :: "nat \<Rightarrow> string option"
  st_copies :: nat

definition stored_row :: "storage \<Rightarrow> nat \<times> BulkInsertLogsParams \<Rightarrow> Log" where
  "stored_row s ip =
     \<lparr>log_ID = st_ids s (fst ip), log_UserID = b_UserID (snd ip), log_Domain = b_Domain (snd ip),
      log_Action = b_Action (snd ip), log_Content = b_Content (snd ip),
      log_CreatedAt = b_CreatedAt (snd ip)\<rparr>"

definition BulkInsertLogs :: "storage \<Rightarrow> BulkInsertLogsParams list \<Rightarrow> (string + int) \<times> storage" where
  "BulkInsertLogs s arg =
     (case st_faults s (st_copies s) of
        Some err \<Rightarrow> (Inl err, s\<lparr>st_copies := Suc (st_copies s)\<rparr>)
      | None \<Rightarrow>
          (Inr (int (length arg)),
           s\<lparr>st_logs := st_logs s @ map (stored_row s) (List.enumerate (length (st_logs s)) arg),
             st_copies := Suc (st_copies s)\<rparr>))"

subsection \<open>The read path: the queries of sqlc/queries.sql\<close>

text \<open>
  The database seen by a request: the table, and \<open>db_down = Some e\<close> when the storage
  is unavailable. \<^verbatim>\<open>ORDER BY created_at DESC\<close> is a stable sort of the table, so rows
  with equal \<^verbatim>\<open>created_at\<close> come in one fixed order in every query of the same table.
  PostgreSQL rejects a negative \<^verbatim>\<open>LIMIT\<close> or \<^verbatim>\<open>OFFSET\<close>.
\<close>

record database =
  db_logs :: "Log list"
  db_down :: "string option"

record FilterParams =
  p_UserID :: "UUID option"
  p_Domain :: "string option"
  p_CreatedAtFrom :: "int option"
  p_CreatedAtTo :: "int option"
  p_Search :: "string option"

definition whereFilters :: "FilterParams \<Rightarrow> Log \<Rightarrow> bool" where
  "whereFilters p l \<longleftrightarrow>
     (case p_UserID p of None \<Rightarrow> True | Some u \<Rightarrow> log_UserID l = u) \<and>
     (case p_Domain p of None \<Rightarrow> True | Some d \<Rightarrow> log_Domain l = d) \<and>
     (case p_CreatedAtFrom p of None \<Rightarrow> True | Some t \<Rightarrow> log_CreatedAt l \<ge> t) \<and>
     (case p_CreatedAtTo p of None \<Rightarrow> True | Some t \<Rightarrow> log_CreatedAt l \<le> t)"

definition whereContentSearch :: "env \<Rightarrow> FilterParams \<Rightarrow> Log \<Rightarrow> bool" where
  "whereContentSearch e p l \<longleftrightarrow>
     whereFilters p l \<and>
     (case p_Search p of None \<Rightarrow> True | Some q \<Rightarrow> pg_fts e q (log_Content l))"

definition wherePartial :: "env \<Rightarrow> FilterParams \<Rightarrow> Log \<Rightarrow> bool" where
  "wherePartial e p l \<longleftrightarrow>
     whereFilters p l \<and>
     (case p_Search p of None \<Rightarrow> False | Some q \<Rightarrow> pg_ilike e q (log_Content l))"

definition orderByCreatedAtDesc :: "Log list \<Rightarrow> Log list" where
  "orderByCreatedAtDesc ls = sort_key (\<lambda>l. - log_CreatedAt l) ls"

definition limitOffset :: "int \<Rightarrow> int \<Rightarrow> Log list \<Rightarrow> string + Log list" where
  "limitOffset lmt off ls =
     (if lmt < 0 then Inl ''LIMIT must not be negative''
      else if off < 0 then Inl ''OFFSET must not be negative''
      else Inr (take (nat lmt) (drop (nat off) ls)))"

definition select_logs :: "database \<Rightarrow> (Log \<Rightarrow> bool) \<Rightarrow> int \<Rightarrow> int \<Rightarrow> string + Log list" where
  "select_logs db cond lmt off =
     (case db_down db of
        Some err \<Rightarrow> Inl err
      | None \<Rightarrow> limitOffset lmt off (orderByCreatedAtDesc (filter cond (db_logs db))))"

definition count_logs :: "database \<Rightarrow> (Log \<Rightarrow> bool) \<Rightarrow> string + int" where
  "count_logs db cond =
     (case db_down db of
        Some err \<Rightarrow> Inl err
      | None \<Rightarrow> Inr (int (length (filter cond (db_logs db)))))"

definition Queries_ListLogs :: "database \<Rightarrow> int \<Rightarrow> int \<Rightarrow> string + Log list" where
  "Queries_ListLogs db lmt off = select_logs db (\<lambda>l. True) lmt off"

definition Queries_ListLogsWithFilters ::
  "env \<Rightarrow> database \<Rightarrow> FilterParams \<Rightarrow> int \<Rightarrow> int \<Rightarrow> string + Log list" where
  "Queries_ListLogsWithFilters e db p lmt off = select_logs db (whereContentSearch e p) lmt off"

definition Queries_CountLogsWithFilters :: "env \<Rightarrow> database \<Rightarrow> FilterParams \<Rightarrow> string + int" where
  "Queries_CountLogsWithFilters e db p = count_logs db (whereContentSearch e p)"

definition Queries_SearchLogsPartial ::
  "env \<Rightarrow> database \<Rightarrow> FilterParams \<Rightarrow> int \<Rightarrow> int \<Rightarrow> string + Log list" where
  "Queries_SearchLogsPartial e db p lmt off = select_logs db (wherePartial e p) lmt off"

definition Queries_CountLogsPartial :: "env \<Rightarrow> database \<Rightarrow> FilterParams \<Rightarrow> string + int" where
  "Queries_CountLogsPartial e db p = count_logs db (wherePartial e p)"

section \<open>Handlers\<close>

text \<open>
  What a handler can end with besides its answer: the request does not bind (status 400
  with the binder's message), an explicit 400 or 500 with the handler's message, a
  run-time panic, or an error value returned to the caller.
\<close>

datatype failure =
    BindError
  | BadRequest string
  | InternalServerError string
  | Panic string
  | Err string

subsection \<open>Batched bulk loader (\<^verbatim>\<open>InitializeData\<close>)\<close>

record InitializeRequest =
  RecordCount :: int
  ContentSize :: string

text \<open>The binding tags of \<^verbatim>\<open>models.InitializeRequest\<close>.\<close>

definition bindInitializeRequest :: "InitializeRequest \<Rightarrow> bool" where
  "bindInitializeRequest req \<longleftrightarrow>
     RecordCount req \<in> {1000, 10000, 100000, 1000000, 10000000} \<and>
     ContentSize req \<in> {''small'', ''medium'', ''large''}"

record InitializeResponse =
  message :: string
  record_count :: int
  content_size :: string

text \<open>The lines the loader writes to the process log (percentages and durations left out).\<close>

datatype log_entry =
    LogGenerating int string
  | LogFailedBatch int string
  | LogProgress int int
  | LogCompleted int

definition batchSize :: int where
  "batchSize = 1000"

definition totalBatches :: "int \<Rightarrow> int" where
  "totalBatches n = int64 (go_quot (int64 (int64 (n + batchSize) - 1)) batchSize)"

definition currentBatchSize :: "int \<Rightarrow> int \<Rightarrow> int" where
  "currentBatchSize n batch =
     (if batch = int64 (totalBatches n - 1) then int64 (n - int64 (batch * batchSize))
      else batchSize)"

text \<open>\<^verbatim>\<open>for batch := 0; batch < totalBatches; batch++\<close>: the values \<open>batch\<close> takes.\<close>

definition batchIndices :: "int \<Rightarrow> int list" where
  "batchIndices n = map int [0 ..< nat (totalBatches n)]"


definition getRandomDomain :: "(world, string) state" where
  "getRandomDomain = pick
     [''example.com'', ''test.org'', ''demo.net'', ''app.io'', ''api.service.com'',
      ''web.portal.com'', ''mobile.app.net'', ''admin.system.org'', ''user.platform.io'',
      ''data.analytics.com'', ''payments.service.net'', ''content.media.org'',
      ''social.platform.io'']"

definition handlers_getRandomAction :: "(world, string) state" where
  "handlers_getRandomAction = pick
     [''user_login'', ''user_logout'', ''page_view'', ''button_click'', ''form_submit'',
      ''file_upload'', ''file_download'', ''search_query'', ''filter_apply'', ''sort_change'',
      ''create_record'', ''update_record'', ''delete_record'', ''export_data'', ''import_data'',
      ''send_message'', ''receive_message'', ''share_content'', ''like_post'', ''comment_post'',
      ''subscribe'', ''unsubscribe'', ''follow_user'', ''unfollow_user'', ''report_issue'',
      ''request_feature'', ''update_settings'', ''change_password'', ''reset_password'']"

text \<open>
  The inner loop: the rows of one batch. \<open>None\<close> when \<^verbatim>\<open>json.Marshal\<close> fails, which
  makes the handler answer 500 and return.
\<close>

definition row_inputs :: "string \<Rightarrow> (world, string \<times> Content \<times> int) state" where
  "row_inputs sz =
     do { action \<leftarrow> handlers_getRandomAction;
          content \<leftarrow> GenerateSampleContent sz;
          now \<leftarrow> time_Now;
          r \<leftarrow> rand_Intn (86400 * 30);
          State_Monad.return (action, content, now - int r * second) }"

fun batchParams ::
  "env \<Rightarrow> string \<Rightarrow> UUID \<Rightarrow> string \<Rightarrow> nat \<Rightarrow> world \<Rightarrow> BulkInsertLogsParams list option \<times> world" where
  "batchParams e sz userID domain 0 w = (Some [], w)"
| "batchParams e sz userID domain (Suc k) w =
     (case run_state (row_inputs sz) w of
        ((action, content, createdAt), w1) \<Rightarrow>
          (case json_Marshal e content of
             None \<Rightarrow> (None, w1)
           | Some contentBytes \<Rightarrow>
               (case batchParams e sz userID domain k w1 of
                  (None, w2) \<Rightarrow> (None, w2)
                | (Some ps, w2) \<Rightarrow>
                    (Some (\<lparr>b_UserID = userID, b_Domain = domain, b_Action = action,
                            b_Content = contentBytes, b_CreatedAt = createdAt\<rparr> # ps), w2))))"

record server =
  sv_world :: world
  sv_storage :: storage
  sv_log :: "log_entry list"

fun insertBatches ::
  "env \<Rightarrow> InitializeRequest \<Rightarrow> int list \<Rightarrow> int \<Rightarrow> server \<Rightarrow> (failure + int) \<times> server" where
  "insertBatches e req [] totalInserted sv = (Inr totalInserted, sv)"
| "insertBatches e req (batch # rest) totalInserted sv =
     (let n = currentBatchSize (RecordCount req) batch in
      if n < 0 then (Inl (Panic ''makeslice: len out of range''), sv)
      else
        case run_state (do { userID \<leftarrow> uuid_New; domain \<leftarrow> getRandomDomain;
                             State_Monad.return (userID, domain) }) (sv_world sv) of
          ((userID, domain), w1) \<Rightarrow>
            (case batchParams e (ContentSize req) userID domain (nat n) w1 of
               (None, w2) \<Rightarrow>
                 (Inl (InternalServerError ''Failed to marshal content''), sv\<lparr>sv_world := w2\<rparr>)
             | (Some params, w2) \<Rightarrow>
                 (case BulkInsertLogs (sv_storage sv) params of
                    (Inl err, s') \<Rightarrow>
                      (Inl (InternalServerError (''Failed to insert batch: '' @ err)),
                       sv\<lparr>sv_world := w2, sv_storage := s',
                          sv_log := sv_log sv @ [LogFailedBatch batch err]\<rparr>)
                  | (Inr rowsInserted, s') \<Rightarrow>
                      insertBatches e req rest (int64 (totalInserted + rowsInserted))
                        (sv\<lparr>sv_world := w2, sv_storage := s',
                            sv_log := sv_log sv @ [LogProgress rowsInserted (batch + 1)]\<rparr>))))"

definition InitializeData ::
  "env \<Rightarrow> InitializeRequest \<Rightarrow> server \<Rightarrow> (failure + InitializeResponse) \<times> server" where
  "InitializeData e req sv =
     (if \<not> bindInitializeRequest req then (Inl BindError, sv)
      else
        case run_state time_Now (sv_world sv) of
          (start, w1) \<Rightarrow>
            (case insertBatches e req (batchIndices (RecordCount req)) 0
                    (sv\<lparr>sv_world := w1,
                        sv_log := sv_log sv @ [LogGenerating (RecordCount req) (ContentSize req)]\<rparr>) of
               (Inl err, sv1) \<Rightarrow> (Inl err, sv1)
             | (Inr totalInserted, sv1) \<Rightarrow>
                 (case run_state time_Now (sv_world sv1) of
                    (finish, w2) \<Rightarrow>
                      (Inr \<lparr>message = ''Data initialized successfully'',
                            record_count = totalInserted, content_size = ContentSize req\<rparr>,
                       sv1\<lparr>sv_world := w2, sv_log := sv_log sv1 @ [LogCompleted totalInserted]\<rparr>))))"

subsection \<open>Filtered query engine (\<^verbatim>\<open>GetLogs\<close>, \<^verbatim>\<open>SearchLogsPartial\<close>)\<close>

text \<open>\<^verbatim>\<open>models.LogFilter\<close> as bound from the query string; a \<open>nil\<close> pointer is \<open>None\<close>.\<close>

record LogFilter =
  f_UserID :: "string option"
  f_Domain :: "string option"
  f_CreatedAt :: "string option"
  f_CreatedAtTo :: "string option"
  f_ContentLike :: "string option"
  f_SearchTerm :: "string option"
  f_Page :: int
  f_Limit :: int

text \<open>\<^verbatim>\<open>p != nil && *p != ""\<close>\<close>

definition supplied :: "string option \<Rightarrow> string option" where
  "supplied p = (case p of None \<Rightarrow> None | Some s \<Rightarrow> if s \<noteq> [] then Some s else None)"

text \<open>The filter parameters both handlers build the same way.\<close>

definition filterParams :: "env \<Rightarrow> LogFilter \<Rightarrow> FilterParams" where
  "filterParams e flt =
     \<lparr>p_UserID = (case supplied (f_UserID flt) of None \<Rightarrow> None | Some s \<Rightarrow> uuid_Parse e s),
      p_Domain = supplied (f_Domain flt),
      p_CreatedAtFrom =
        (case supplied (f_CreatedAt flt) of None \<Rightarrow> None | Some s \<Rightarrow> time_Parse_date s),
      p_CreatedAtTo =
        (case supplied (f_CreatedAtTo flt) of None \<Rightarrow> None
         | Some s \<Rightarrow> (case time_Parse_date s of None \<Rightarrow> None
                      | Some t \<Rightarrow> Some (t + (24 * hour - second)))),
      p_Search = None\<rparr>"

text \<open>One element of \<^verbatim>\<open>data\<close> in the answer; a \<open>nil\<close> content is \<open>None\<close>.\<close>

record LogEntry =
  r_id :: string
  r_user_id :: string
  r_domain :: string
  r_action :: string
  r_content :: "Content option"
  r_created_at :: int

text \<open>The answer of both handlers (\<^verbatim>\<open>query_duration\<close>, a wall-clock reading, left out).\<close>

record LogsResponse =
  data :: "LogEntry list"
  total :: int
  page :: int
  limit :: int
  total_pages :: int

definition uuidToString :: "UUID option \<Rightarrow> string" where
  "uuidToString u = (case u of None \<Rightarrow> [] | Some x \<Rightarrow> x)"

definition decodeContent :: "env \<Rightarrow> string \<Rightarrow> Content option" where
  "decodeContent e payload =
     (case json_Unmarshal e payload None of
        (None, content) \<Rightarrow> content
      | (Some err, content) \<Rightarrow> Some [(''raw'', JString payload)])"

definition toResponse :: "env \<Rightarrow> Log \<Rightarrow> LogEntry" where
  "toResponse e l =
     \<lparr>r_id = uuidToString (Some (log_ID l)), r_user_id = uuidToString (Some (log_UserID l)),
      r_domain = log_Domain l, r_action = log_Action l,
      r_content = decodeContent e (log_Content l), r_created_at = log_CreatedAt l\<rparr>"

definition totalPages :: "int \<Rightarrow> int \<Rightarrow> int" where
  "totalPages total_rows lmt = int64 (go_quot (int64 (int64 (total_rows + lmt) - 1)) lmt)"

definition respond :: "env \<Rightarrow> LogFilter \<Rightarrow> int \<Rightarrow> Log list \<Rightarrow> failure + LogsResponse" where
  "respond e flt total_rows logs =
     (let response = map (toResponse e) logs in
      if f_Limit flt = 0 then Inl (Panic ''runtime error: integer divide by zero'')
      else Inr \<lparr>data = response, total = total_rows, page = f_Page flt,
                limit = f_Limit flt, total_pages = totalPages total_rows (f_Limit flt)\<rparr>)"

definition pageOffset :: "LogFilter \<Rightarrow> int" where
  "pageOffset flt = int32 (int64 (int64 (f_Page flt - 1) * f_Limit flt))"

text \<open>The parameters of the count and of the list query, the same for both.\<close>

definition listParams :: "env \<Rightarrow> LogFilter \<Rightarrow> FilterParams" where
  "listParams e flt = (filterParams e flt)\<lparr>p_Search := supplied (f_ContentLike flt)\<rparr>"

definition partialParams :: "env \<Rightarrow> LogFilter \<Rightarrow> string \<Rightarrow> FilterParams" where
  "partialParams e flt term = (filterParams e flt)\<lparr>p_Search := Some term\<rparr>"

definition GetLogs :: "env \<Rightarrow> database \<Rightarrow> LogFilter \<Rightarrow> failure + LogsResponse" where
  "GetLogs e db flt =
     (let params = listParams e flt in
      case Queries_CountLogsWithFilters e db params of
        Inl err \<Rightarrow> Inl (InternalServerError ''Failed to count records'')
      | Inr total_rows \<Rightarrow>
          (case Queries_ListLogsWithFilters e db params (int32 (f_Limit flt)) (pageOffset flt) of
             Inl err \<Rightarrow> Inl (InternalServerError ''Failed to query logs'')
           | Inr logs \<Rightarrow> respond e flt total_rows logs))"

definition SearchLogsPartial :: "env \<Rightarrow> database \<Rightarrow> LogFilter \<Rightarrow> failure + LogsResponse" where
  "SearchLogsPartial e db flt =
     (case supplied (f_SearchTerm flt) of
        None \<Rightarrow> Inl (BadRequest ''search_term is required'')
      | Some term \<Rightarrow>
          (let params = partialParams e flt term in
           case Queries_CountLogsPartial e db params of
             Inl err \<Rightarrow> Inl (InternalServerError ''Failed to count records'')
           | Inr total_rows \<Rightarrow>
               (case Queries_SearchLogsPartial e db params (int32 (f_Limit flt)) (pageOffset flt) of
                  Inl err \<Rightarrow> Inl (InternalServerError ''Failed to query logs'')
                | Inr logs \<Rightarrow> respond e flt total_rows logs)))"

text \<open>The rows one page of the listing returns (none when the request fails).\<close>

definition pageData :: "env \<Rightarrow> database \<Rightarrow> LogFilter \<Rightarrow> int \<Rightarrow> LogEntry list" where
  "pageData e db flt p =
     (case GetLogs e db (flt\<lparr>f_Page := p\<rparr>) of Inl err \<Rightarrow> [] | Inr resp \<Rightarrow> data resp)"

section \<open>Reading a content column (\<^verbatim>\<open>models.Content.Scan\<close>)\<close>



section \<open>Term discovery of the benchmark harness (\<^verbatim>\<open>discoverTerms\<close>)\<close>

definition cutset :: string where
  "cutset = ''.,!?-()[]{}'' @ [CHR 0x22]"

text \<open>The words of one string value that are counted.\<close>

definition words_of :: "env \<Rightarrow> string \<Rightarrow> string list" where
  "words_of e s =
     filter (\<lambda>w. length w > 3)
       (map (\<lambda>w. strings_ToLower e (strings_Trim e w cutset)) (strings_Fields e s))"

text \<open>\<^verbatim>\<open>for _, v := range content { if str, ok := v.(string); ok { ... } }\<close>\<close>

definition string_values :: "Content \<Rightarrow> string list" where
  "string_values c = concat (map (\<lambda>kv. case snd kv of JString s \<Rightarrow> [s] | _ \<Rightarrow> []) c)"

definition record_words :: "env \<Rightarrow> Log \<Rightarrow> string list" where
  "record_words e l =
     (case json_Unmarshal e (log_Content l) None of
        (Some err, c) \<Rightarrow> []
      | (None, None) \<Rightarrow> []
      | (None, Some content) \<Rightarrow> concat (map (words_of e) (string_values content)))"

text \<open>\<^verbatim>\<open>wordCounts[w]++\<close>\<close>

definition countWord :: "string \<Rightarrow> (string \<times> nat) list \<Rightarrow> (string \<times> nat) list" where
  "countWord w wc = AList.update w (Suc (case map_of wc w of None \<Rightarrow> 0 | Some n \<Rightarrow> n)) wc"

definition wordCounts :: "env \<Rightarrow> Log list \<Rightarrow> (string \<times> nat) list" where
  "wordCounts e logs = fold countWord (concat (map (record_words e) logs)) []"

text \<open>The backward search for a count in \<open>[1, 5)\<close>.\<close>

definition rareTerm :: "(string \<times> nat) list \<Rightarrow> string \<Rightarrow> string" where
  "rareTerm entries rare =
     (case find (\<lambda>kv. snd kv \<ge> 1 \<and> snd kv < 5) (rev entries) of
        None \<Rightarrow> rare
      | Some kv \<Rightarrow> fst kv)"

definition discoverTerms :: "env \<Rightarrow> database \<Rightarrow> failure + string \<times> string" where
  "discoverTerms e db =
     (case Queries_ListLogs db 1000 0 of
        Inl err \<Rightarrow> Inl (Err err)
      | Inr logs \<Rightarrow>
          (let wc = wordCounts e logs in
           if length wc = 0 then Inr (''login'', ''error'')
           else
             (case sort_Slice e wc of
                [] \<Rightarrow> Inl (Panic ''index out of range'')
              | kv # kvs \<Rightarrow>
                  (let entries = kv # kvs;
                       common = fst (entries ! 0);
                       rare = fst (entries ! (length entries - 1))
                   in Inr (common, rareTerm entries rare)))))"

section \<open>Names and concrete inputs used in the statements\<close>

text \<open>The field names of the literal in \<^verbatim>\<open>generateSmallContent\<close>.\<close>

definition smallKeys :: "string set" where
  "smallKeys = {''event_id'', ''session_id'', ''ip_address'', ''user_agent'', ''timestamp'',
     ''action_type'', ''status'', ''duration'', ''device_id''}"

text \<open>The filter of a request without query parameters (the binding's defaults).\<close>

definition no_filter :: LogFilter where
  "no_filter =
     \<lparr>f_UserID = None, f_Domain = None, f_CreatedAt = None, f_CreatedAtTo = None,
      f_ContentLike = None, f_SearchTerm = None, f_Page = 1, f_Limit = 50\<rparr>"

text \<open>
  Library functions for the examples, exact on the ASCII inputs the examples use:
  splitting at white space, trimming a cutset from both ends, lower-casing, a sort by
  descending count, substring search, the canonical textual form of a UUID, and a
  decoder that knows the payloads of a table.
\<close>

definition is_space :: "char \<Rightarrow> bool" where
  "is_space c \<longleftrightarrow> (of_char c :: nat) \<in> {9, 10, 11, 12, 13, 32}"

fun fields_from :: "string \<Rightarrow> string \<Rightarrow> string list" where
  "fields_from [] cur = (if cur = [] then [] else [cur])"
| "fields_from (c # cs) cur =
     (if is_space c then (if cur = [] then fields_from cs [] else cur # fields_from cs [])
      else fields_from cs (cur @ [c]))"

definition ascii_Fields :: "string \<Rightarrow> string list" where
  "ascii_Fields s = fields_from s []"

definition ascii_Trim :: "string \<Rightarrow> string \<Rightarrow> string" where
  "ascii_Trim s chars =
     rev (dropWhile (\<lambda>c. c \<in> set chars) (rev (dropWhile (\<lambda>c. c \<in> set chars) s)))"

definition ascii_ToLower :: "string \<Rightarrow> string" where
  "ascii_ToLower s =
     map (\<lambda>c. let n = (of_char c :: nat) in if 65 \<le> n \<and> n \<le> 90 then char_of (n + 32) else c) s"

definition sort_by_count_desc :: "(string \<times> nat) list \<Rightarrow> (string \<times> nat) list" where
  "sort_by_count_desc kvs = sort_key (\<lambda>kv. - int (snd kv)) kvs"

fun contains :: "string \<Rightarrow> string \<Rightarrow> bool" where
  "contains q [] \<longleftrightarrow> q = []"
| "contains q (c # cs) \<longleftrightarrow> take (length q) (c # cs) = q \<or> contains q cs"

definition is_hex :: "char \<Rightarrow> bool" where
  "is_hex c \<longleftrightarrow>
     (let n = (of_char c :: nat) in (48 \<le> n \<and> n \<le> 57) \<or> (97 \<le> n \<and> n \<le> 102) \<or> (65 \<le> n \<and> n \<le> 70))"

definition canonical_uuid_Parse :: "string \<Rightarrow> UUID option" where
  "canonical_uuid_Parse s =
     (if length s = 36 \<and>
         (\<forall>i \<in> set [0 ..< 36]. if i \<in> {8, 13, 18, 23} then s ! i = CHR ''-'' else is_hex (s ! i))
      then Some (ascii_ToLower s) else None)"

definition table_Unmarshal ::
  "(string \<times> Content option) list \<Rightarrow> string \<Rightarrow> Content option \<Rightarrow> string option \<times> Content option" where
  "table_Unmarshal tab payload target =
     (case map_of tab payload of
        Some doc \<Rightarrow> (None, doc)
      | None \<Rightarrow> (Some ''invalid character'', target))"

definition quoted :: "string \<Rightarrow> string" where
  "quoted s = CHR 0x22 # s @ [CHR 0x22]"

text \<open>
  Four payloads: an object with one string field, one with two, an object whose only
  string is nested in another object, and a text that is not JSON.
\<close>

definition login_payload :: string where
  "login_payload = ''{'' @ quoted ''action_type'' @ '':'' @ quoted ''login'' @ ''}''"

definition search_payload :: string where
  "search_payload =
     ''{'' @ quoted ''action_type'' @ '':'' @ quoted ''search'' @ '','' @
       quoted ''note'' @ '':'' @ quoted ''login Search, now'' @ ''}''"

definition nested_payload :: string where
  "nested_payload =
     ''{'' @ quoted ''meta'' @ '':{'' @ quoted ''note'' @ '':'' @ quoted ''alpha alpha alpha'' @ ''}}''"

definition broken_payload :: string where
  "broken_payload = ''{not json''"

definition example_env :: env where
  "example_env =
     \<lparr>uuid_Parse = canonical_uuid_Parse,
      json_Unmarshal = table_Unmarshal
        [(login_payload, Some [(''action_type'', JString ''login'')]),
         (search_payload,
            Some [(''action_type'', JString ''search''), (''note'', JString ''login Search, now'')]),
         (nested_payload, Some [(''meta'', JObject [(''note'', JString ''alpha alpha alpha'')])])],
      json_Marshal = (\<lambda>c. Some (''{'' @ concat (map (\<lambda>kv. quoted (fst kv) @ '','') c) @ ''}'')),
      strings_Fields = ascii_Fields,
      strings_Trim = ascii_Trim,
      strings_ToLower = ascii_ToLower,
      sort_Slice = sort_by_count_desc,
      pg_fts = contains,
      pg_ilike = (\<lambda>q c. contains (ascii_ToLower q) (ascii_ToLower c))\<rparr>"

definition example_row :: "UUID \<Rightarrow> int \<Rightarrow> string \<Rightarrow> Log" where
  "example_row i t payload =
     \<lparr>log_ID = i, log_UserID = ''6f1c2b1e-0000-4000-8000-000000000001'', log_Domain = ''example.com'',
      log_Action = ''user_login'', log_Content = payload, log_CreatedAt = t\<rparr>"

text \<open>A process environment for the examples: fixed streams of readings.\<close>

definition example_world :: world where
  "example_world =
     \<lparr>rand_src = (\<lambda>i. i * 79 + 13), rand_pos = 0,
      uuid_src = (\<lambda>i. ''00000000-0000-4000-8000-00000000000'' @ dec (i mod 10)), uuid_pos = 0,
      clock = (\<lambda>i. 1718409600000000 + int i), clock_pos = 0,
      AddDate_Format = (\<lambda>t m. ''2024-06-15''),
      Format_RFC3339 = (\<lambda>t. ''2024-06-15T00:00:00Z'')\<rparr>"

text \<open>
  A table for the examples: rows created at 2024-06-15T23:59:59, 2024-06-16T00:00:00 and
  2024-06-15T00:00:00 (UTC); the content of the last row is not JSON.
\<close>

definition june_table :: "Log list" where
  "june_table =
     [example_row ''a'' (time_Date 2024 6 15 23 59 59) login_payload,
      example_row ''b'' (time_Date 2024 6 16 0 0 0) login_payload,
      example_row ''c'' (time_Date 2024 6 15 0 0 0) broken_payload]"

definition june_db :: database where
  "june_db = \<lparr>db_logs = june_table, db_down = None\<rparr>"

text \<open>
  Two more tables: one whose rows carry the words "login" (three times) and "search"
  (twice) in top-level strings, and one whose only row has its only string inside a
  nested object.
\<close>

definition terms_db :: database where
  "terms_db =
     \<lparr>db_logs =
        [example_row ''a'' 5 login_payload, example_row ''b'' 4 login_payload,
         example_row ''c'' 3 broken_payload, example_row ''d'' 2 search_payload,
         example_row ''n'' 1 nested_payload],
      db_down = None\<rparr>"

definition nested_db :: database where
  "nested_db = \<lparr>db_logs = [example_row ''n'' 1 nested_payload], db_down = None\<rparr>"

text \<open>The words \<^verbatim>\<open>discoverTerms\<close> counts in a database.\<close>

definition sampled_words :: "env \<Rightarrow> database \<Rightarrow> string list" where
  "sampled_words e db =
     (case Queries_ListLogs db 1000 0 of
        Inl err \<Rightarrow> []
      | Inr logs \<Rightarrow> concat (map (record_words e) logs))"

text \<open>
  A server for the examples: an empty table, and a storage whose fourth bulk copy fails.
\<close>

definition flaky_storage :: storage where
  "flaky_storage =
     \<lparr>st_logs = [],
      st_ids = (\<lambda>i. ''00000000-0000-4000-9000-'' @ dec (100000000000 + i)),
      st_faults = (\<lambda>i. if i = 3 then Some ''connection reset'' else None),
      st_copies = 0\<rparr>"

definition flaky_server :: server where
  "flaky_server = \<lparr>sv_world = example_world, sv_storage = flaky_storage, sv_log = []\<rparr>"

definition ten_thousand_small :: InitializeRequest where
  "ten_thousand_small = \<lparr>RecordCount = 10000, ContentSize = ''small''\<rparr>"

section \<open>Properties: integer arithmetic and the batch partition\<close>

lemma int64_id: "- (2 ^ 63) \<le> x \<Longrightarrow> x < 2 ^ 63 \<Longrightarrow> int64 x = x"
  by (simp add: int64_def wrap_signed_def)


lemma go_quot_nonneg: "0 \<le> a \<Longrightarrow> 0 < b \<Longrightarrow> go_quot a b = a div b"
  by (cases "a = 0") (simp_all add: go_quot_def)



lemma int64_add_left: "int64 (int64 x + y) = int64 (x + y)"
proof -
  have "(((x + 2 ^ 63) mod 2 ^ 64 - 2 ^ 63) + y + 2 ^ 63) mod (2 ^ 64 :: int)
          = ((x + 2 ^ 63) mod 2 ^ 64 + y) mod 2 ^ 64"
    by (simp add: algebra_simps)
  also have "\<dots> = (x + 2 ^ 63 + y) mod 2 ^ 64"
    by (rule mod_add_left_eq)
  finally show ?thesis
    by (simp add: int64_def wrap_signed_def algebra_simps)
qed

lemma round_up_cases:
  fixes n :: int
  obtains (exact) q where "n = 1000 * q" and "(n + 999) div 1000 = q" and "n mod 1000 = 0"
  | (rest) q m where "n = 1000 * q + m" and "0 < m" and "m < 1000"
      and "(n + 999) div 1000 = q + 1" and "n mod 1000 = m"
proof -
  define q where "q = n div 1000"
  define m where "m = n mod 1000"
  have e: "n = 1000 * q + m"
    unfolding q_def m_def by simp
  have m: "0 \<le> m" "m < 1000"
    unfolding m_def by simp_all
  show thesis
  proof (cases "m = 0")
    case True
    have "n + 999 = 1000 * q + 999"
      using e True by simp
    then have d: "(n + 999) div 1000 = q"
      by (rule int_div_pos_eq) simp_all
    have "n = 1000 * q"
      using e True by simp
    moreover have "n mod 1000 = 0"
      using True unfolding m_def .
    ultimately show thesis
      using d by (intro exact [of q])
  next
    case False
    have "n + 999 = 1000 * (q + 1) + (m - 1)"
      using e by simp
    moreover have "0 \<le> m - 1" "m - 1 < 1000"
      using m False by linarith+
    ultimately have d: "(n + 999) div 1000 = q + 1"
      by (rule int_div_pos_eq)
    have "0 < m"
      using m False by linarith
    moreover have "n mod 1000 = m"
      unfolding m_def ..
    ultimately show thesis
      using e m d by (intro rest [of q m])
  qed
qed

lemma div1000_bounds:
  fixes n :: int
  assumes "1 \<le> n"
  shows "1 \<le> (n + 999) div 1000" "(n + 999) div 1000 \<le> n" "((n + 999) div 1000 - 1) * 1000 < n"
    "n \<le> (n + 999) div 1000 * 1000"
proof -
  show "1 \<le> (n + 999) div 1000"
    using assms by (cases n rule: round_up_cases) simp_all
  show "(n + 999) div 1000 \<le> n"
    using assms by (cases n rule: round_up_cases) simp_all
  show "((n + 999) div 1000 - 1) * 1000 < n"
    using assms by (cases n rule: round_up_cases) simp_all
  show "n \<le> (n + 999) div 1000 * 1000"
    using assms by (cases n rule: round_up_cases) simp_all
qed


lemma totalBatches_eq:
  assumes "1 \<le> n" "n \<le> 2 ^ 63 - 1000"
  shows "totalBatches n = (n + 999) div 1000"
proof -
  have a: "int64 (int64 (n + batchSize) - 1) = n + 999"
    using assms int64_add_left [of "n + 1000" "- 1"] by (simp add: batchSize_def int64_id)
  have c: "go_quot (n + 999) 1000 = (n + 999) div 1000"
    using assms by (simp add: go_quot_nonneg)
  have d: "int64 ((n + 999) div 1000) = (n + 999) div 1000"
    using assms div1000_bounds [of n] by (intro int64_id) simp_all
  show ?thesis
    unfolding totalBatches_def a by (simp add: c d batchSize_def)
qed

lemma last_index_eq:
  assumes "1 \<le> n" "n \<le> 2 ^ 63 - 1000"
  shows "int64 (totalBatches n - 1) = (n + 999) div 1000 - 1"
  using assms div1000_bounds [of n] by (simp add: totalBatches_eq int64_id)

lemma currentBatchSize_full:
  assumes "1 \<le> n" "n \<le> 2 ^ 63 - 1000" "0 \<le> b" "b < (n + 999) div 1000 - 1"
  shows "currentBatchSize n b = 1000"
  using assms by (simp add: currentBatchSize_def batchSize_def last_index_eq)

lemma currentBatchSize_last:
  assumes "1 \<le> n" "n \<le> 2 ^ 63 - 1000"
  shows "currentBatchSize n ((n + 999) div 1000 - 1) = n - ((n + 999) div 1000 - 1) * 1000"
proof -
  have m: "int64 (((n + 999) div 1000 - 1) * batchSize) = ((n + 999) div 1000 - 1) * 1000"
    unfolding batchSize_def using assms div1000_bounds [of n] by (intro int64_id) simp_all
  have s: "int64 (n - ((n + 999) div 1000 - 1) * 1000) = n - ((n + 999) div 1000 - 1) * 1000"
    using assms div1000_bounds [of n] by (intro int64_id) simp_all
  show ?thesis
    by (simp only: currentBatchSize_def last_index_eq [OF assms] m s refl if_True)
qed






section \<open>Properties: the content generator\<close>

lemma keys_Cons: "keys ((k, v) # c) = insert k (keys c)"
  by (simp add: keys_def)

lemma keys_update: "keys (AList.update k v c) = insert k (keys c)"
  by (induction c) (auto simp add: keys_def)

lemma keys_assign_all: "keys (assign_all src dst) = keys src \<union> keys dst"
  unfolding assign_all_def
proof (induction src arbitrary: dst)
  case Nil
  show ?case by (simp add: keys_def)
next
  case (Cons kv src)
  show ?case
    by (simp add: Cons.IH keys_update) (auto simp add: keys_def)
qed

lemma keys_literal: "keys (fst (run_state (literal fs) w)) = fst ` set fs"
proof (induction fs arbitrary: w)
  case Nil
  show ?case by (simp add: keys_def)
next
  case (Cons kg fs)
  obtain v w1 where v: "run_state (snd kg) w = (v, w1)"
    by (cases "run_state (snd kg) w")
  obtain c w2 where c: "run_state (literal fs) w1 = (c, w2)"
    by (cases "run_state (literal fs) w1")
  have "keys c = fst ` set fs"
    using Cons.IH [of w1] c by simp
  then show ?case
    by (simp add: v c keys_Cons)
qed

lemma keys_for_range:
  assumes "\<And>i c w. keys (fst (run_state (body i c) w)) = insert (name i) (keys c)"
  shows "keys (fst (run_state (for_range ns body acc) w)) = keys acc \<union> name ` set ns"
proof (induction ns arbitrary: acc w)
  case Nil
  show ?case by simp
next
  case (Cons i ns)
  obtain acc1 w1 where s: "run_state (body i acc) w = (acc1, w1)"
    by (cases "run_state (body i acc) w")
  have "keys acc1 = insert (name i) (keys acc)"
    using assms [of i acc w] s by simp
  then show ?case
    using Cons.IH [of acc1 w1] by (simp add: s)
qed

lemma keys_flat_field:
  "keys (fst (run_state (flat_field i c) w)) = insert (''field_'' @ dec i) (keys c)"
  by (simp add: flat_field_def keys_update split: prod.splits)

lemma keys_japanese_text_field:
  "keys (fst (run_state (japanese_text_field i c) w)) = insert (''japanese_field_'' @ dec i) (keys c)"
  by (simp add: japanese_text_field_def keys_update split: prod.splits)

lemma keys_nested_obj_field:
  "keys (fst (run_state (nested_obj_field i c) w)) = insert (''nested_obj_'' @ dec i) (keys c)"
  by (simp add: nested_obj_field_def keys_update split: prod.splits)

lemma keys_array_field:
  "keys (fst (run_state (array_field i c) w)) = insert (''array_field_'' @ dec i) (keys c)"
  by (simp add: array_field_def keys_update split: prod.splits)

lemma keys_small: "keys (fst (run_state generateSmallContent w)) = smallKeys"
  unfolding generateSmallContent_def keys_literal smallKeys_def by simp

lemma keys_medium:
  "keys (fst (run_state generateMediumContent w)) =
     smallKeys \<union> keys (fst (run_state additionalFields (snd (run_state generateSmallContent w))))"
proof -
  obtain c w1 where c: "run_state generateSmallContent w = (c, w1)"
    by (cases "run_state generateSmallContent w")
  obtain x w2 where x: "run_state additionalFields w1 = (x, w2)"
    by (cases "run_state additionalFields w1")
  have "keys c = smallKeys"
    using keys_small [of w] c by simp
  then show ?thesis
    by (auto simp add: generateMediumContent_def c x keys_assign_all)
qed

lemma keys_large:
  "keys (fst (run_state generateLargeContent w)) =
     keys (fst (run_state generateMediumContent w)) \<union>
     (\<lambda>i. ''field_'' @ dec i) ` {0 ..< 500} \<union>
     (\<lambda>i. ''japanese_field_'' @ dec i) ` {0 ..< 200} \<union>
     (\<lambda>i. ''nested_obj_'' @ dec i) ` {0 ..< 100} \<union>
     (\<lambda>i. ''array_field_'' @ dec i) ` {0 ..< 50}"
proof -
  obtain c0 w0 where c0: "run_state generateMediumContent w = (c0, w0)"
    by (cases "run_state generateMediumContent w")
  obtain c1 w1 where c1: "run_state (for_range [0 ..< 500] flat_field c0) w0 = (c1, w1)"
    by (cases "run_state (for_range [0 ..< 500] flat_field c0) w0")
  obtain c2 w2 where c2: "run_state (for_range [0 ..< 200] japanese_text_field c1) w1 = (c2, w2)"
    by (cases "run_state (for_range [0 ..< 200] japanese_text_field c1) w1")
  obtain c3 w3 where c3: "run_state (for_range [0 ..< 100] nested_obj_field c2) w2 = (c3, w3)"
    by (cases "run_state (for_range [0 ..< 100] nested_obj_field c2) w2")
  have k1: "keys c1 = keys c0 \<union> (\<lambda>i. ''field_'' @ dec i) ` {0 ..< 500}"
    using keys_for_range [of flat_field "\<lambda>i. ''field_'' @ dec i" "[0 ..< 500]" c0 w0, OF keys_flat_field]
    by (simp only: c1 fst_conv set_upt)
  have k2: "keys c2 = keys c1 \<union> (\<lambda>i. ''japanese_field_'' @ dec i) ` {0 ..< 200}"
    using keys_for_range [of japanese_text_field "\<lambda>i. ''japanese_field_'' @ dec i" "[0 ..< 200]" c1 w1,
        OF keys_japanese_text_field]
    by (simp only: c2 fst_conv set_upt)
  have k3: "keys c3 = keys c2 \<union> (\<lambda>i. ''nested_obj_'' @ dec i) ` {0 ..< 100}"
    using keys_for_range [of nested_obj_field "\<lambda>i. ''nested_obj_'' @ dec i" "[0 ..< 100]" c2 w2,
        OF keys_nested_obj_field]
    by (simp only: c3 fst_conv set_upt)
  have k4: "keys (fst (run_state (for_range [0 ..< 50] array_field c3) w3)) =
              keys c3 \<union> (\<lambda>i. ''array_field_'' @ dec i) ` {0 ..< 50}"
    using keys_for_range [of array_field "\<lambda>i. ''array_field_'' @ dec i" "[0 ..< 50]" c3 w3,
        OF keys_array_field]
    by (simp only: set_upt)
  have "run_state generateLargeContent w = run_state (for_range [0 ..< 50] array_field c3) w3"
    by (simp add: generateLargeContent_def c0 c1 c2 c3)
  then show ?thesis
    by (simp only: k4 k3 k2 k1 c0 fst_conv)
qed

lemma keys_additional:
  "keys (fst (run_state additionalFields w)) = keys (fst (run_state additionalFields w'))"
  unfolding additionalFields_def keys_literal ..

lemma keys_medium_any_world:
  "keys (fst (run_state generateMediumContent w)) = keys (fst (run_state generateMediumContent w'))"
  unfolding keys_medium
  using keys_additional [of "snd (run_state generateSmallContent w)"
      "snd (run_state generateSmallContent w')"]
  by simp

lemma request_id_medium: "''request_id'' \<in> keys (fst (run_state generateMediumContent w))"
  unfolding keys_medium additionalFields_def keys_literal by simp

lemma request_id_not_small: "''request_id'' \<notin> smallKeys"
  by (simp add: smallKeys_def)

lemma field_0_large: "''field_0'' \<in> keys (fst (run_state generateLargeContent w))"
proof -
  have "dec 0 = ''0''"
    by code_simp
  then have "''field_0'' \<in> (\<lambda>i. ''field_'' @ dec i) ` {0 ..< 500}"
    by (intro image_eqI [where x = 0]) simp_all
  then show ?thesis
    unfolding keys_large by simp
qed

lemma field_0_not_medium: "''field_0'' \<notin> keys (fst (run_state generateMediumContent w))"
  unfolding keys_medium additionalFields_def keys_literal by (simp add: smallKeys_def)

text \<open>
  Claim C1. Whatever the random source, the identifiers and the clock deliver, the field
  names of a small document are among those of a medium document, and the field names of
  a medium document are among those of a large one; both inclusions are proper.
\<close>

theorem size_classes_nested:
  "keys (fst (run_state (GenerateSampleContent ''small'') w1))
     \<subseteq> keys (fst (run_state (GenerateSampleContent ''medium'') w2)) \<and>
   keys (fst (run_state (GenerateSampleContent ''medium'') w2))
     \<subseteq> keys (fst (run_state (GenerateSampleContent ''large'') w3)) \<and>
   keys (fst (run_state (GenerateSampleContent ''small'') w1))
     \<noteq> keys (fst (run_state (GenerateSampleContent ''medium'') w2)) \<and>
   keys (fst (run_state (GenerateSampleContent ''medium'') w2))
     \<noteq> keys (fst (run_state (GenerateSampleContent ''large'') w3))"
proof -
  have s: "GenerateSampleContent ''small'' = generateSmallContent"
    and m: "GenerateSampleContent ''medium'' = generateMediumContent"
    and l: "GenerateSampleContent ''large'' = generateLargeContent"
    by (simp_all add: GenerateSampleContent_def)
  have sm: "keys (fst (run_state generateSmallContent w1))
              \<subseteq> keys (fst (run_state generateMediumContent w2))"
    unfolding keys_small keys_medium by simp
  have ml: "keys (fst (run_state generateMediumContent w2))
              \<subseteq> keys (fst (run_state generateLargeContent w3))"
    unfolding keys_large keys_medium_any_world [of w2 w3] by auto
  have sm_ne: "keys (fst (run_state generateSmallContent w1))
                 \<noteq> keys (fst (run_state generateMediumContent w2))"
    using request_id_medium [of w2] request_id_not_small unfolding keys_small by metis
  have ml_ne: "keys (fst (run_state generateMediumContent w2))
                 \<noteq> keys (fst (run_state generateLargeContent w3))"
    using field_0_large [of w3] field_0_not_medium [of w2] by metis
  show ?thesis
    unfolding s m l using sm ml sm_ne ml_ne by simp
qed

text \<open>
  Claim C10. A size class other than "small", "medium" and "large" takes the default
  branch: the generator is the small generator (it consumes the same readings and builds
  the same document), so the field names are those of a small document.
\<close>

theorem unknown_size_is_small:
  assumes "sz \<notin> {''small'', ''medium'', ''large''}"
  shows "GenerateSampleContent sz = generateSmallContent \<and>
         run_state (GenerateSampleContent sz) w = run_state (GenerateSampleContent ''small'') w \<and>
         keys (fst (run_state (GenerateSampleContent sz) w))
           = keys (fst (run_state (GenerateSampleContent ''small'') w'))"
proof -
  have d: "GenerateSampleContent sz = generateSmallContent"
    using assms by (simp add: GenerateSampleContent_def)
  have s: "GenerateSampleContent ''small'' = generateSmallContent"
    by (simp add: GenerateSampleContent_def)
  show ?thesis
    unfolding d s keys_small by simp
qed

theorem unknown_size_is_small_witness:
  "''huge'' \<notin> {''small'', ''medium'', ''large''} \<and>
   GenerateSampleContent ''huge'' = generateSmallContent \<and>
   keys (fst (run_state (GenerateSampleContent ''huge'') example_world)) = smallKeys"
proof -
  have h: "''huge'' \<notin> {''small'', ''medium'', ''large''}"
    by simp
  show ?thesis
    using h unknown_size_is_small [OF h, of example_world example_world]
    by (simp add: keys_small)
qed

section \<open>Properties: the filtered query engine\<close>

lemma parsed_date_nonempty: "time_Parse_date s = Some t \<Longrightarrow> s \<noteq> []"
  by (auto simp add: time_Parse_date_def)

lemma supplied_Some: "s \<noteq> [] \<Longrightarrow> supplied (Some s) = Some s"
  by (simp add: supplied_def)

lemma parse_2024_06_15: "time_Parse_date ''2024-06-15'' = Some (time_Date 2024 6 15 0 0 0)"
  by (simp add: time_Parse_date_def number_of_def digit_of_def daysIn_def isLeap_def)

lemma end_of_2024_06_15:
  "time_Date 2024 6 15 0 0 0 + (24 * hour - second) = time_Date 2024 6 15 23 59 59"
  by (simp add: time_Date_def hour_def second_def)

lemma next_midnight:
  "time_Date 2024 6 15 23 59 59 < time_Date 2024 6 16 0 0 0"
  by (simp add: time_Date_def days_from_civil_def second_def)

lemma filterParams_upper_bound:
  assumes "time_Parse_date s = Some t"
  shows "filterParams e (flt\<lparr>f_CreatedAtTo := Some s\<rparr>) =
           (filterParams e (flt\<lparr>f_CreatedAtTo := None\<rparr>))\<lparr>p_CreatedAtTo := Some (t + (24 * hour - second))\<rparr>"
proof -
  have "supplied (Some s) = Some s"
    using assms by (intro supplied_Some) (rule parsed_date_nonempty)
  then show ?thesis
    by (simp add: filterParams_def assms)
qed

lemma filterParams_no_upper_bound:
  "p_CreatedAtTo (filterParams e (flt\<lparr>f_CreatedAtTo := None\<rparr>)) = None"
  by (simp add: filterParams_def supplied_def)

lemma whereFilters_upper_bound:
  assumes "p_CreatedAtTo p = None"
  shows "whereFilters (p\<lparr>p_CreatedAtTo := Some u\<rparr>) l \<longleftrightarrow> whereFilters p l \<and> log_CreatedAt l \<le> u"
  using assms by (auto simp add: whereFilters_def)

lemma whereContentSearch_listParams:
  "whereContentSearch e (listParams e flt) l \<longleftrightarrow>
     whereFilters (filterParams e flt) l \<and>
     (case supplied (f_ContentLike flt) of None \<Rightarrow> True | Some q \<Rightarrow> pg_fts e q (log_Content l))"
  by (simp add: whereContentSearch_def listParams_def whereFilters_def)

lemma wherePartial_partialParams:
  "wherePartial e (partialParams e flt term) l \<longleftrightarrow>
     whereFilters (filterParams e flt) l \<and> pg_ilike e term (log_Content l)"
  by (simp add: wherePartial_def partialParams_def whereFilters_def)

text \<open>
  Claim C4. When the upper bound is supplied as a calendar date \<open>s\<close> that parses to
  midnight \<open>t\<close>, both handlers pass \<open>t + 24h - 1s\<close> to their queries, and a row satisfies
  the query exactly when it satisfies the same query without the upper bound and its
  \<^verbatim>\<open>created_at\<close> is at most that instant. For "2024-06-15" (times in UTC) a row created
  at 2024-06-15T23:59:59 satisfies the bound and a row created at 2024-06-16T00:00:00
  does not.
\<close>

theorem created_at_to_end_of_day:
  assumes "time_Parse_date s = Some t"
  shows "p_CreatedAtTo (listParams e (flt\<lparr>f_CreatedAtTo := Some s\<rparr>)) = Some (t + (24 * hour - second)) \<and>
         p_CreatedAtTo (partialParams e (flt\<lparr>f_CreatedAtTo := Some s\<rparr>) term)
           = Some (t + (24 * hour - second)) \<and>
         (whereContentSearch e (listParams e (flt\<lparr>f_CreatedAtTo := Some s\<rparr>)) l \<longleftrightarrow>
            whereContentSearch e (listParams e (flt\<lparr>f_CreatedAtTo := None\<rparr>)) l \<and>
            log_CreatedAt l \<le> t + (24 * hour - second)) \<and>
         (wherePartial e (partialParams e (flt\<lparr>f_CreatedAtTo := Some s\<rparr>) term) l \<longleftrightarrow>
            wherePartial e (partialParams e (flt\<lparr>f_CreatedAtTo := None\<rparr>) term) l \<and>
            log_CreatedAt l \<le> t + (24 * hour - second)) \<and>
         whereContentSearch e (listParams e (no_filter\<lparr>f_CreatedAtTo := Some ''2024-06-15''\<rparr>))
           (l\<lparr>log_CreatedAt := time_Date 2024 6 15 23 59 59\<rparr>) \<and>
         \<not> whereContentSearch e (listParams e (no_filter\<lparr>f_CreatedAtTo := Some ''2024-06-15''\<rparr>))
           (l\<lparr>log_CreatedAt := time_Date 2024 6 16 0 0 0\<rparr>)"
proof -
  have s: "supplied (Some s) = Some s"
    using assms by (intro supplied_Some) (rule parsed_date_nonempty)
  have a: "p_CreatedAtTo (listParams e (flt\<lparr>f_CreatedAtTo := Some s\<rparr>)) = Some (t + (24 * hour - second))"
    by (simp add: listParams_def filterParams_def s assms)
  have b: "p_CreatedAtTo (partialParams e (flt\<lparr>f_CreatedAtTo := Some s\<rparr>) term)
             = Some (t + (24 * hour - second))"
    by (simp add: partialParams_def filterParams_def s assms)
  have w: "whereFilters (filterParams e (flt\<lparr>f_CreatedAtTo := Some s\<rparr>)) l \<longleftrightarrow>
             whereFilters (filterParams e (flt\<lparr>f_CreatedAtTo := None\<rparr>)) l \<and>
             log_CreatedAt l \<le> t + (24 * hour - second)"
    unfolding filterParams_upper_bound [OF assms]
    by (rule whereFilters_upper_bound) (rule filterParams_no_upper_bound)
  have c: "whereContentSearch e (listParams e (flt\<lparr>f_CreatedAtTo := Some s\<rparr>)) l \<longleftrightarrow>
             whereContentSearch e (listParams e (flt\<lparr>f_CreatedAtTo := None\<rparr>)) l \<and>
             log_CreatedAt l \<le> t + (24 * hour - second)"
    unfolding whereContentSearch_listParams w by auto
  have d: "wherePartial e (partialParams e (flt\<lparr>f_CreatedAtTo := Some s\<rparr>) term) l \<longleftrightarrow>
             wherePartial e (partialParams e (flt\<lparr>f_CreatedAtTo := None\<rparr>) term) l \<and>
             log_CreatedAt l \<le> t + (24 * hour - second)"
    unfolding wherePartial_partialParams w by auto
  have p: "listParams e (no_filter\<lparr>f_CreatedAtTo := Some ''2024-06-15''\<rparr>) =
             \<lparr>p_UserID = None, p_Domain = None, p_CreatedAtFrom = None,
              p_CreatedAtTo = Some (time_Date 2024 6 15 23 59 59), p_Search = None\<rparr>"
    by (simp add: listParams_def filterParams_def no_filter_def supplied_def parse_2024_06_15
        end_of_2024_06_15)
  have f: "whereContentSearch e (listParams e (no_filter\<lparr>f_CreatedAtTo := Some ''2024-06-15''\<rparr>))
             (l\<lparr>log_CreatedAt := time_Date 2024 6 15 23 59 59\<rparr>)"
    unfolding p by (simp add: whereContentSearch_def whereFilters_def)
  have g: "\<not> whereContentSearch e (listParams e (no_filter\<lparr>f_CreatedAtTo := Some ''2024-06-15''\<rparr>))
             (l\<lparr>log_CreatedAt := time_Date 2024 6 16 0 0 0\<rparr>)"
    unfolding p using next_midnight by (simp add: whereContentSearch_def whereFilters_def)
  show ?thesis
    using a b c d f g by blast
qed

lemma june_15_listing:
  "map r_id (pageData example_env june_db (no_filter\<lparr>f_CreatedAtTo := Some ''2024-06-15''\<rparr>) 1)
     = [''a'', ''c'']"
  by code_simp

theorem created_at_to_end_of_day_witness:
  "time_Parse_date ''2024-06-15'' = Some (time_Date 2024 6 15 0 0 0) \<and>
   p_CreatedAtTo (listParams example_env (no_filter\<lparr>f_CreatedAtTo := Some ''2024-06-15''\<rparr>))
     = Some (time_Date 2024 6 15 23 59 59) \<and>
   whereContentSearch example_env (listParams example_env (no_filter\<lparr>f_CreatedAtTo := Some ''2024-06-15''\<rparr>))
     (example_row ''a'' (time_Date 2024 6 15 23 59 59) login_payload) \<and>
   \<not> whereContentSearch example_env (listParams example_env (no_filter\<lparr>f_CreatedAtTo := Some ''2024-06-15''\<rparr>))
     (example_row ''b'' (time_Date 2024 6 16 0 0 0) login_payload) \<and>
   map r_id (pageData example_env june_db (no_filter\<lparr>f_CreatedAtTo := Some ''2024-06-15''\<rparr>) 1)
     = [''a'', ''c'']"
proof -
  have a: "(example_row ''a'' 0 login_payload)\<lparr>log_CreatedAt := time_Date 2024 6 15 23 59 59\<rparr>
             = example_row ''a'' (time_Date 2024 6 15 23 59 59) login_payload"
    by (simp add: example_row_def)
  have b: "(example_row ''b'' 0 login_payload)\<lparr>log_CreatedAt := time_Date 2024 6 16 0 0 0\<rparr>
             = example_row ''b'' (time_Date 2024 6 16 0 0 0) login_payload"
    by (simp add: example_row_def)
  show ?thesis
    using created_at_to_end_of_day [OF parse_2024_06_15, of example_env no_filter "[]"
        "example_row ''a'' 0 login_payload"]
      created_at_to_end_of_day [OF parse_2024_06_15, of example_env no_filter "[]"
        "example_row ''b'' 0 login_payload"]
    by (simp only: a b parse_2024_06_15 end_of_2024_06_15 june_15_listing simp_thms)
qed

lemma filterParams_invalid_user_id:
  assumes "uuid_Parse e s = None"
  shows "filterParams e (flt\<lparr>f_UserID := Some s\<rparr>) = filterParams e (flt\<lparr>f_UserID := None\<rparr>)"
  using assms by (simp add: filterParams_def supplied_def)

lemma respond_user_id: "respond e (flt\<lparr>f_UserID := u\<rparr>) n logs = respond e flt n logs"
  by (auto simp add: respond_def Let_def)

lemma pageOffset_user_id: "pageOffset (flt\<lparr>f_UserID := u\<rparr>) = pageOffset flt"
  by (simp add: pageOffset_def)

lemma respond_not_client_error: "respond e flt n logs \<noteq> Inl (BadRequest m) \<and> respond e flt n logs \<noteq> Inl BindError"
  by (simp add: respond_def Let_def)

lemma GetLogs_not_client_error: "GetLogs e db flt \<noteq> Inl (BadRequest m) \<and> GetLogs e db flt \<noteq> Inl BindError"
  using respond_not_client_error
  by (auto simp add: GetLogs_def Let_def split: sum.splits)

lemma SearchLogsPartial_not_client_error:
  assumes "supplied (f_SearchTerm flt) = Some term"
  shows "SearchLogsPartial e db flt \<noteq> Inl (BadRequest m) \<and> SearchLogsPartial e db flt \<noteq> Inl BindError"
  using respond_not_client_error assms
  by (auto simp add: SearchLogsPartial_def Let_def split: sum.splits)

text \<open>
  Claim C5. When \<^verbatim>\<open>uuid.Parse\<close> rejects the \<^verbatim>\<open>user_id\<close> of a request, both handlers
  build the parameters of their count and list queries with no user filter and all other
  parameters as supplied, so they answer exactly as for the same request without
  \<^verbatim>\<open>user_id\<close>; the listing never answers with a client error, and the partial search
  does so only when the search term is missing.
\<close>

theorem invalid_user_id_ignored:
  assumes "uuid_Parse e s = None"
  shows "p_UserID (listParams e (flt\<lparr>f_UserID := Some s\<rparr>)) = None \<and>
         p_UserID (partialParams e (flt\<lparr>f_UserID := Some s\<rparr>) term) = None \<and>
         listParams e (flt\<lparr>f_UserID := Some s\<rparr>) = listParams e (flt\<lparr>f_UserID := None\<rparr>) \<and>
         partialParams e (flt\<lparr>f_UserID := Some s\<rparr>) term = partialParams e (flt\<lparr>f_UserID := None\<rparr>) term \<and>
         GetLogs e db (flt\<lparr>f_UserID := Some s\<rparr>) = GetLogs e db (flt\<lparr>f_UserID := None\<rparr>) \<and>
         SearchLogsPartial e db (flt\<lparr>f_UserID := Some s\<rparr>)
           = SearchLogsPartial e db (flt\<lparr>f_UserID := None\<rparr>) \<and>
         GetLogs e db (flt\<lparr>f_UserID := Some s\<rparr>) \<noteq> Inl (BadRequest m) \<and>
         GetLogs e db (flt\<lparr>f_UserID := Some s\<rparr>) \<noteq> Inl BindError \<and>
         (supplied (f_SearchTerm flt) = None \<or>
          SearchLogsPartial e db (flt\<lparr>f_UserID := Some s\<rparr>) \<noteq> Inl (BadRequest m))"
proof -
  note fp = filterParams_invalid_user_id [OF assms, of flt]
  have lp: "listParams e (flt\<lparr>f_UserID := Some s\<rparr>) = listParams e (flt\<lparr>f_UserID := None\<rparr>)"
    by (simp add: listParams_def fp)
  have pp: "partialParams e (flt\<lparr>f_UserID := Some s\<rparr>) tm
              = partialParams e (flt\<lparr>f_UserID := None\<rparr>) tm" for tm
    by (simp add: partialParams_def fp)
  have none: "p_UserID (filterParams e (flt\<lparr>f_UserID := None\<rparr>)) = None"
    by (simp add: filterParams_def supplied_def)
  have u1: "p_UserID (listParams e (flt\<lparr>f_UserID := Some s\<rparr>)) = None"
    unfolding lp by (simp add: listParams_def none)
  have u2: "p_UserID (partialParams e (flt\<lparr>f_UserID := Some s\<rparr>) term) = None"
    unfolding pp by (simp add: partialParams_def none)
  have g: "GetLogs e db (flt\<lparr>f_UserID := Some s\<rparr>) = GetLogs e db (flt\<lparr>f_UserID := None\<rparr>)"
    by (simp add: GetLogs_def lp pageOffset_user_id respond_user_id Let_def cong: sum.case_cong)
  have p: "SearchLogsPartial e db (flt\<lparr>f_UserID := Some s\<rparr>)
             = SearchLogsPartial e db (flt\<lparr>f_UserID := None\<rparr>)"
    by (simp add: SearchLogsPartial_def pp pageOffset_user_id respond_user_id Let_def
        cong: sum.case_cong option.case_cong)
  have n: "supplied (f_SearchTerm flt) = None \<or>
           SearchLogsPartial e db (flt\<lparr>f_UserID := Some s\<rparr>) \<noteq> Inl (BadRequest m)"
  proof (cases "supplied (f_SearchTerm flt)")
    case None
    then show ?thesis by simp
  next
    case (Some t)
    then have "supplied (f_SearchTerm (flt\<lparr>f_UserID := Some s\<rparr>)) = Some t"
      by simp
    then show ?thesis
      using SearchLogsPartial_not_client_error by blast
  qed
  show ?thesis
    using u1 u2 lp pp g p n GetLogs_not_client_error by blast
qed

lemma not_a_uuid: "uuid_Parse example_env ''not-a-uuid'' = None"
  by (simp add: example_env_def canonical_uuid_Parse_def)

theorem invalid_user_id_ignored_witness:
  "uuid_Parse example_env ''not-a-uuid'' = None \<and>
   GetLogs example_env june_db (no_filter\<lparr>f_Domain := Some ''example.com'', f_UserID := Some ''not-a-uuid''\<rparr>)
     = GetLogs example_env june_db (no_filter\<lparr>f_Domain := Some ''example.com'', f_UserID := None\<rparr>) \<and>
   p_Domain (listParams example_env (no_filter\<lparr>f_Domain := Some ''example.com'', f_UserID := Some ''not-a-uuid''\<rparr>))
     = Some ''example.com''"
proof -
  have d: "p_Domain (listParams example_env (no_filter\<lparr>f_Domain := Some ''example.com'', f_UserID := None\<rparr>))
             = Some ''example.com''"
    by (simp add: listParams_def filterParams_def supplied_def)
  show ?thesis
    using invalid_user_id_ignored [OF not_a_uuid, of "no_filter\<lparr>f_Domain := Some ''example.com''\<rparr>"
        "[]" june_db "[]"] not_a_uuid d
    by simp
qed

lemma respond_ok:
  assumes "f_Limit flt \<noteq> 0"
  shows "respond e flt n logs =
           Inr \<lparr>data = map (toResponse e) logs, total = n, page = f_Page flt, limit = f_Limit flt,
                total_pages = totalPages n (f_Limit flt)\<rparr>"
  using assms by (simp add: respond_def Let_def)

lemma content_of_toResponse:
  "r_content (toResponse e l) =
     (case json_Unmarshal e (log_Content l) None of
        (None, doc) \<Rightarrow> doc
      | (Some err, doc) \<Rightarrow> Some [(''raw'', JString (log_Content l))])"
  by (simp add: toResponse_def decodeContent_def)

text \<open>
  Claim C6. Both handlers turn every row of the page into an entry whose content is what
  \<^verbatim>\<open>json.Unmarshal\<close> decodes from the stored payload or, when decoding fails, the
  document with the single key "raw" holding the payload. Whether the payloads decode has
  no influence on the outcome: whenever the count and the list query succeed (and the limit
  is not zero) the handler answers with one entry per row.
\<close>

theorem unparsable_content_falls_back:
  assumes "f_Limit flt \<noteq> 0"
  shows "(Queries_CountLogsWithFilters e db (listParams e flt) = Inr n \<and>
          Queries_ListLogsWithFilters e db (listParams e flt) (int32 (f_Limit flt)) (pageOffset flt)
            = Inr logs \<longrightarrow>
          (\<exists>resp. GetLogs e db flt = Inr resp \<and> data resp = map (toResponse e) logs)) \<and>
         (supplied (f_SearchTerm flt) = Some term \<and>
          Queries_CountLogsPartial e db (partialParams e flt term) = Inr n \<and>
          Queries_SearchLogsPartial e db (partialParams e flt term) (int32 (f_Limit flt)) (pageOffset flt)
            = Inr logs \<longrightarrow>
          (\<exists>resp. SearchLogsPartial e db flt = Inr resp \<and> data resp = map (toResponse e) logs)) \<and>
         r_id (toResponse e l) = log_ID l \<and>
         r_content (toResponse e l) =
           (case json_Unmarshal e (log_Content l) None of
              (None, doc) \<Rightarrow> doc
            | (Some err, doc) \<Rightarrow> Some [(''raw'', JString (log_Content l))]) \<and>
         (fst (json_Unmarshal e (log_Content l) None) \<noteq> None \<longrightarrow>
          r_content (toResponse e l) = Some [(''raw'', JString (log_Content l))])"
proof -
  have g: "GetLogs e db flt = respond e flt n logs"
    if "Queries_CountLogsWithFilters e db (listParams e flt) = Inr n"
      and "Queries_ListLogsWithFilters e db (listParams e flt) (int32 (f_Limit flt)) (pageOffset flt)
             = Inr logs"
    using that by (simp add: GetLogs_def Let_def)
  have p: "SearchLogsPartial e db flt = respond e flt n logs"
    if "supplied (f_SearchTerm flt) = Some term"
      and "Queries_CountLogsPartial e db (partialParams e flt term) = Inr n"
      and "Queries_SearchLogsPartial e db (partialParams e flt term) (int32 (f_Limit flt))
             (pageOffset flt) = Inr logs"
    using that by (simp add: SearchLogsPartial_def Let_def)
  have r: "fst (json_Unmarshal e (log_Content l) None) \<noteq> None \<longrightarrow>
           r_content (toResponse e l) = Some [(''raw'', JString (log_Content l))]"
    by (cases "json_Unmarshal e (log_Content l) None") (auto simp add: content_of_toResponse)
  have i: "r_id (toResponse e l) = log_ID l"
    by (simp add: toResponse_def uuidToString_def)
  show ?thesis
    using g p r i content_of_toResponse [of e l] respond_ok [OF assms, of e n logs] by simp
qed

lemma june_count: "Queries_CountLogsWithFilters example_env june_db (listParams example_env no_filter) = Inr 3"
  by code_simp

lemma june_list:
  "Queries_ListLogsWithFilters example_env june_db (listParams example_env no_filter)
     (int32 (f_Limit no_filter)) (pageOffset no_filter)
   = Inr [example_row ''b'' (time_Date 2024 6 16 0 0 0) login_payload,
          example_row ''a'' (time_Date 2024 6 15 23 59 59) login_payload,
          example_row ''c'' (time_Date 2024 6 15 0 0 0) broken_payload]"
  by code_simp

lemma broken_payload_fails:
  "json_Unmarshal example_env (log_Content (example_row ''c'' (time_Date 2024 6 15 0 0 0) broken_payload)) None
     = (Some ''invalid character'', None)"
  by code_simp

lemma june_contents:
  "map r_content (pageData example_env june_db no_filter 1) =
     [Some [(''action_type'', JString ''login'')], Some [(''action_type'', JString ''login'')],
      Some [(''raw'', JString broken_payload)]]"
  by code_simp

theorem unparsable_content_falls_back_witness:
  "f_Limit no_filter \<noteq> 0 \<and>
   fst (json_Unmarshal example_env
          (log_Content (example_row ''c'' (time_Date 2024 6 15 0 0 0) broken_payload)) None) \<noteq> None \<and>
   r_content (toResponse example_env (example_row ''c'' (time_Date 2024 6 15 0 0 0) broken_payload))
     = Some [(''raw'', JString broken_payload)] \<and>
   (\<exists>resp. GetLogs example_env june_db no_filter = Inr resp \<and>
      data resp = map (toResponse example_env)
        [example_row ''b'' (time_Date 2024 6 16 0 0 0) login_payload,
         example_row ''a'' (time_Date 2024 6 15 23 59 59) login_payload,
         example_row ''c'' (time_Date 2024 6 15 0 0 0) broken_payload]) \<and>
   map r_content (pageData example_env june_db no_filter 1) =
     [Some [(''action_type'', JString ''login'')], Some [(''action_type'', JString ''login'')],
      Some [(''raw'', JString broken_payload)]]"
proof -
  have l: "f_Limit no_filter \<noteq> 0"
    by (simp add: no_filter_def)
  have c: "log_Content (example_row ''c'' (time_Date 2024 6 15 0 0 0) broken_payload) = broken_payload"
    by (simp add: example_row_def)
  show ?thesis
    using unparsable_content_falls_back [OF l, of example_env june_db 3
        "[example_row ''b'' (time_Date 2024 6 16 0 0 0) login_payload,
          example_row ''a'' (time_Date 2024 6 15 23 59 59) login_payload,
          example_row ''c'' (time_Date 2024 6 15 0 0 0) broken_payload]" "[]"
        "example_row ''c'' (time_Date 2024 6 15 0 0 0) broken_payload"]
      l june_count june_list broken_payload_fails june_contents
    by (simp add: c)
qed

subsection \<open>Pagination\<close>






















section \<open>Properties: reading a content column\<close>


section \<open>Properties: term discovery\<close>

lemma map_of_countWord:
  "map_of (countWord w wc) = (map_of wc)(w \<mapsto> Suc (case map_of wc w of None \<Rightarrow> 0 | Some n \<Rightarrow> n))"
  by (simp add: countWord_def update_conv')

lemma distinct_countWord: "distinct (map fst wc) \<Longrightarrow> distinct (map fst (countWord w wc))"
  by (simp add: countWord_def distinct_update)

lemma fold_countWord:
  assumes "distinct (map fst acc)"
  shows "distinct (map fst (fold countWord ws acc)) \<and>
         (\<forall>w. map_of (fold countWord ws acc) w =
            (if w \<in> set ws \<or> map_of acc w \<noteq> None
             then Some ((case map_of acc w of None \<Rightarrow> 0 | Some n \<Rightarrow> n) + count_list ws w)
             else None))"
  using assms
proof (induction ws arbitrary: acc)
  case Nil
  then show ?case by (auto split: option.splits)
next
  case (Cons x ws)
  have d: "distinct (map fst (countWord x acc))"
    using Cons.prems by (rule distinct_countWord)
  show ?case
    using Cons.IH [OF d] by (auto simp add: map_of_countWord split: option.splits)
qed

lemma wordCounts_entries:
  "distinct (map fst (fold countWord ws [])) \<and>
   ((w, n) \<in> set (fold countWord ws []) \<longleftrightarrow> w \<in> set ws \<and> n = count_list ws w)"
proof -
  have f: "distinct (map fst (fold countWord ws []))"
    and m: "\<And>w. map_of (fold countWord ws []) w = (if w \<in> set ws then Some (count_list ws w) else None)"
    using fold_countWord [of "[]" ws] by simp_all
  have "(w, n) \<in> set (fold countWord ws []) \<longleftrightarrow> map_of (fold countWord ws []) w = Some n"
    using f by simp
  then show ?thesis
    using f m by auto
qed

lemma count_list_pos: "w \<in> set ws \<Longrightarrow> 0 < count_list ws w"
  by (induction ws) auto

lemma rareTerm_last:
  assumes "entries \<noteq> []"
    and "sorted_wrt (\<lambda>a b. snd a \<ge> snd b) entries"
    and "\<forall>kv \<in> set entries. 1 \<le> snd kv"
  shows "rareTerm entries (fst (last entries)) = fst (last entries)"
proof (cases "snd (last entries) < 5")
  case True
  obtain ys y where e: "entries = ys @ [y]"
    using assms(1) by (metis rev_exhaust)
  have "1 \<le> snd y"
    using assms(3) e by simp
  then show ?thesis
    using True e by (simp add: rareTerm_def)
next
  case False
  have "\<forall>kv \<in> set entries. snd (last entries) \<le> snd kv"
  proof
    fix kv assume "kv \<in> set entries"
    obtain ys y where e: "entries = ys @ [y]"
      using assms(1) by (metis rev_exhaust)
    show "snd (last entries) \<le> snd kv"
      using assms(2) \<open>kv \<in> set entries\<close> unfolding e by (auto simp add: sorted_wrt_append)
  qed
  then have "\<forall>kv \<in> set (rev entries). \<not> (snd kv \<ge> 1 \<and> snd kv < 5)"
    using False by fastforce
  then have "find (\<lambda>kv. snd kv \<ge> 1 \<and> snd kv < 5) (rev entries) = None"
    unfolding find_None_iff by blast
  then show ?thesis
    by (simp add: rareTerm_def)
qed

lemma set_words_of:
  "set (words_of e s) =
     {t. length t > 3 \<and> (\<exists>w \<in> set (strings_Fields e s). t = strings_ToLower e (strings_Trim e w cutset))}"
  by (auto simp add: words_of_def)

lemma set_string_values: "set (string_values doc) = {s. \<exists>k. (k, JString s) \<in> set doc}"
proof -
  have "s \<in> set (string_values doc) \<longleftrightarrow> (\<exists>k. (k, JString s) \<in> set doc)" for s
  proof (induction doc)
    case Nil
    show ?case by (simp add: string_values_def)
  next
    case (Cons kv doc)
    obtain k v where kv: "kv = (k, v)"
      by (cases kv)
    show ?case
      using Cons.IH unfolding kv by (cases v) (auto simp add: string_values_def)
  qed
  then show ?thesis
    by blast
qed

lemma ListLogs_sample:
  assumes "db_down db = None"
  shows "Queries_ListLogs db 1000 0 = Inr (take 1000 (orderByCreatedAtDesc (db_logs db)))"
  using assms by (simp add: Queries_ListLogs_def select_logs_def limitOffset_def)

text \<open>
  Claim C8, as far as the code goes. With the storage available, \<^verbatim>\<open>discoverTerms\<close> samples
  the 1000 most recent rows. The words it counts are, for every sampled row whose content
  decodes, the white-space separated fields of the string values at the top level of the
  document (strings inside nested objects or arrays are not visited), trimmed of the
  cutset at both ends, lower-cased, and kept when longer than 3; the table holds each word
  with its number of occurrences. With no word the result is the pair of defaults.
  Otherwise, provided \<^verbatim>\<open>sort.Slice\<close> returns the table sorted by descending count, the
  common term is a word of maximal count and the rare term a word of minimal count, so
  its count is below 5 whenever some word's is.
\<close>

theorem term_discovery:
  fixes e :: env and db :: database
  assumes up: "db_down db = None"
  defines "logs \<equiv> take 1000 (orderByCreatedAtDesc (db_logs db))"
  defines "ws \<equiv> sampled_words e db"
  assumes perm: "mset (sort_Slice e (wordCounts e logs)) = mset (wordCounts e logs)"
    and desc: "sorted_wrt (\<lambda>a b. snd a \<ge> snd b) (sort_Slice e (wordCounts e logs))"
  shows "ws = concat (map (record_words e) logs) \<and>
         (\<forall>l. set (record_words e l) =
            {t. \<exists>doc s. json_Unmarshal e (log_Content l) None = (None, Some doc) \<and>
                  (\<exists>k. (k, JString s) \<in> set doc) \<and> length t > 3 \<and>
                  (\<exists>w \<in> set (strings_Fields e s). t = strings_ToLower e (strings_Trim e w cutset))}) \<and>
         (\<forall>w n. (w, n) \<in> set (wordCounts e logs) \<longleftrightarrow> w \<in> set ws \<and> n = count_list ws w) \<and>
         (ws = [] \<longrightarrow> discoverTerms e db = Inr (''login'', ''error'')) \<and>
         (ws \<noteq> [] \<longrightarrow>
            (\<exists>common rare. discoverTerms e db = Inr (common, rare) \<and>
               common \<in> set ws \<and> rare \<in> set ws \<and>
               (\<forall>w \<in> set ws. count_list ws w \<le> count_list ws common \<and>
                               count_list ws rare \<le> count_list ws w) \<and>
               ((\<exists>w \<in> set ws. count_list ws w < 5) \<longrightarrow> count_list ws rare < 5)))"
proof -
  have sample: "Queries_ListLogs db 1000 0 = Inr logs"
    unfolding logs_def by (rule ListLogs_sample [OF up])
  have ws: "ws = concat (map (record_words e) logs)"
    by (simp add: ws_def sampled_words_def sample)
  have words: "set (record_words e l) =
            {t. \<exists>doc s. json_Unmarshal e (log_Content l) None = (None, Some doc) \<and>
                  (\<exists>k. (k, JString s) \<in> set doc) \<and> length t > 3 \<and>
                  (\<exists>w \<in> set (strings_Fields e s). t = strings_ToLower e (strings_Trim e w cutset))}" for l
  proof (cases "json_Unmarshal e (log_Content l) None")
    case (Pair err c)
    show ?thesis
    proof (cases err)
      case (Some x)
      then show ?thesis by (simp add: record_words_def Pair)
    next
      case None
      show ?thesis
      proof (cases c)
        case None
        then show ?thesis by (simp add: record_words_def Pair \<open>err = None\<close>)
      next
        case (Some doc)
        have "set (record_words e l) = (\<Union>s \<in> set (string_values doc). set (words_of e s))"
          by (simp add: record_words_def Pair \<open>err = None\<close> Some)
        then show ?thesis
          unfolding set_string_values set_words_of by (auto simp add: Pair \<open>err = None\<close> Some)
      qed
    qed
  qed
  have wc: "wordCounts e logs = fold countWord ws []"
    by (simp add: wordCounts_def ws)
  have table: "(w, n) \<in> set (wordCounts e logs) \<longleftrightarrow> w \<in> set ws \<and> n = count_list ws w" for w n
    unfolding wc using wordCounts_entries [of ws w n] by simp
  have empty: "discoverTerms e db = Inr (''login'', ''error'')" if "ws = []"
    using that by (simp add: discoverTerms_def sample wc)
  have found: "\<exists>common rare. discoverTerms e db = Inr (common, rare) \<and>
               common \<in> set ws \<and> rare \<in> set ws \<and>
               (\<forall>w \<in> set ws. count_list ws w \<le> count_list ws common \<and>
                               count_list ws rare \<le> count_list ws w) \<and>
               ((\<exists>w \<in> set ws. count_list ws w < 5) \<longrightarrow> count_list ws rare < 5)"
    if ne: "ws \<noteq> []"
  proof -
    define S where "S = sort_Slice e (wordCounts e logs)"
    obtain w0 where "w0 \<in> set ws"
      using ne by (cases ws) auto
    then have "(w0, count_list ws w0) \<in> set (wordCounts e logs)"
      using table by simp
    then have wcne: "wordCounts e logs \<noteq> []"
      by auto
    have setS: "set S = set (wordCounts e logs)"
      unfolding S_def using perm by (rule mset_eq_setD)
    have Sne: "S \<noteq> []"
      using setS wcne by auto
    have inS: "(w, n) \<in> set S \<longleftrightarrow> w \<in> set ws \<and> n = count_list ws w" for w n
      unfolding setS by (rule table)
    have pos: "\<forall>kv \<in> set S. 1 \<le> snd kv"
    proof
      fix kv assume "kv \<in> set S"
      then have "fst kv \<in> set ws" and "snd kv = count_list ws (fst kv)"
        using inS [of "fst kv" "snd kv"] by simp_all
      then show "1 \<le> snd kv"
        using count_list_pos [of "fst kv" ws] by simp
    qed
    obtain kv kvs where S: "S = kv # kvs"
      using Sne by (cases S) auto
    obtain ys y where S': "S = ys @ [y]"
      using Sne by (metis rev_exhaust)
    have srt: "sorted_wrt (\<lambda>a b. snd a \<ge> snd b) S"
      unfolding S_def by (rule desc)
    have rare: "rareTerm S (fst (last S)) = fst (last S)"
      using Sne srt pos by (rule rareTerm_last)
    have l: "S ! (length S - 1) = last S"
      using Sne by (simp add: last_conv_nth)
    have h: "fst (S ! 0) = fst kv"
      by (simp add: S)
    have r: "rareTerm S (fst (S ! (length S - 1))) = fst y"
      unfolding l rare by (simp add: S')
    have "sort_Slice e (wordCounts e logs) = kv # kvs"
      using S unfolding S_def .
    then have "discoverTerms e db =
            Inr (fst ((kv # kvs) ! 0), rareTerm (kv # kvs) (fst ((kv # kvs) ! (length (kv # kvs) - 1))))"
      using wcne by (simp add: discoverTerms_def sample Let_def)
    also have "\<dots> = Inr (fst (S ! 0), rareTerm S (fst (S ! (length S - 1))))"
      by (simp only: S)
    finally have result: "discoverTerms e db = Inr (fst kv, fst y)"
      by (simp only: h r)
    have kv: "fst kv \<in> set ws" "snd kv = count_list ws (fst kv)"
      using inS [of "fst kv" "snd kv"] S by simp_all
    have y: "fst y \<in> set ws" "snd y = count_list ws (fst y)"
      using inS [of "fst y" "snd y"] S' by simp_all
    have top: "count_list ws w \<le> count_list ws (fst kv)" if "w \<in> set ws" for w
    proof -
      have "(w, count_list ws w) \<in> set S"
        using that inS by simp
      then have "snd (w, count_list ws w) \<le> snd kv"
        using srt unfolding S by auto
      then show ?thesis
        using kv by simp
    qed
    have bottom: "count_list ws (fst y) \<le> count_list ws w" if "w \<in> set ws" for w
    proof -
      have "(w, count_list ws w) \<in> set S"
        using that inS by simp
      then have "snd y \<le> snd (w, count_list ws w)"
        using srt unfolding S' by (auto simp add: sorted_wrt_append)
      then show ?thesis
        using y by simp
    qed
    have few: "(\<exists>w \<in> set ws. count_list ws w < 5) \<longrightarrow> count_list ws (fst y) < 5"
      using bottom by (meson le_less_trans)
    show ?thesis
      using result kv(1) y(1) top bottom few by blast
  qed
  show ?thesis
    using ws words table empty found by blast
qed

lemma sort_by_count_desc_perm: "mset (sort_by_count_desc kvs) = mset kvs"
  by (simp add: sort_by_count_desc_def)

lemma sort_by_count_desc_sorted: "sorted_wrt (\<lambda>a b. snd a \<ge> snd b) (sort_by_count_desc kvs)"
proof -
  have "sorted (map (\<lambda>kv. - int (snd kv)) (sort_key (\<lambda>kv. - int (snd kv)) kvs))"
    by (rule sorted_sort_key)
  then show ?thesis
    by (simp add: sort_by_count_desc_def sorted_map)
qed

lemma terms_db_words:
  "sampled_words example_env terms_db = [''login'', ''login'', ''search'', ''login'', ''search'']"
  by code_simp

lemma terms_db_result: "discoverTerms example_env terms_db = Inr (''login'', ''search'')"
  by code_simp

theorem term_discovery_witness:
  "db_down terms_db = None \<and>
   mset (sort_Slice example_env
           (wordCounts example_env (take 1000 (orderByCreatedAtDesc (db_logs terms_db)))))
     = mset (wordCounts example_env (take 1000 (orderByCreatedAtDesc (db_logs terms_db)))) \<and>
   sorted_wrt (\<lambda>a b. snd a \<ge> snd b)
     (sort_Slice example_env
        (wordCounts example_env (take 1000 (orderByCreatedAtDesc (db_logs terms_db))))) \<and>
   sampled_words example_env terms_db = [''login'', ''login'', ''search'', ''login'', ''search''] \<and>
   discoverTerms example_env terms_db = Inr (''login'', ''search'') \<and>
   (\<exists>common rare. discoverTerms example_env terms_db = Inr (common, rare) \<and>
      common \<in> set (sampled_words example_env terms_db) \<and>
      rare \<in> set (sampled_words example_env terms_db) \<and>
      count_list (sampled_words example_env terms_db) rare
        \<le> count_list (sampled_words example_env terms_db) common)"
proof -
  have up: "db_down terms_db = None"
    by (simp add: terms_db_def)
  have srt: "sort_Slice example_env = sort_by_count_desc"
    by (simp add: example_env_def)
  have perm: "mset (sort_Slice example_env
                 (wordCounts example_env (take 1000 (orderByCreatedAtDesc (db_logs terms_db)))))
              = mset (wordCounts example_env (take 1000 (orderByCreatedAtDesc (db_logs terms_db))))"
    unfolding srt by (rule sort_by_count_desc_perm)
  have desc: "sorted_wrt (\<lambda>a b. snd a \<ge> snd b)
                (sort_Slice example_env
                   (wordCounts example_env (take 1000 (orderByCreatedAtDesc (db_logs terms_db)))))"
    unfolding srt by (rule sort_by_count_desc_sorted)
  have ne: "sampled_words example_env terms_db \<noteq> []"
    by (simp add: terms_db_words)
  have "\<exists>common rare. discoverTerms example_env terms_db = Inr (common, rare) \<and>
      common \<in> set (sampled_words example_env terms_db) \<and>
      rare \<in> set (sampled_words example_env terms_db) \<and>
      count_list (sampled_words example_env terms_db) rare
        \<le> count_list (sampled_words example_env terms_db) common"
    using term_discovery [OF up perm desc] ne by blast
  then show ?thesis
    using up perm desc terms_db_words terms_db_result by blast
qed

text \<open>
  Claim C8 as stated (all string leaf values) fails on a document whose only string sits
  inside a nested object: the payload decodes, its leaf "alpha alpha alpha" holds the word
  "alpha" three times, yet no word is counted and the defaults are returned.
\<close>

theorem term_discovery_skips_nested_strings:
  "json_Unmarshal example_env nested_payload None
     = (None, Some [(''meta'', JObject [(''note'', JString ''alpha alpha alpha'')])]) \<and>
   words_of example_env ''alpha alpha alpha'' = [''alpha'', ''alpha'', ''alpha''] \<and>
   sampled_words example_env nested_db = [] \<and>
   discoverTerms example_env nested_db = Inr (''login'', ''error'')"
proof (intro conjI)
  show "json_Unmarshal example_env nested_payload None
          = (None, Some [(''meta'', JObject [(''note'', JString ''alpha alpha alpha'')])])"
    by code_simp
  show "words_of example_env ''alpha alpha alpha'' = [''alpha'', ''alpha'', ''alpha'']"
    by code_simp
  show "sampled_words example_env nested_db = []"
    by code_simp
  show "discoverTerms example_env nested_db = Inr (''login'', ''error'')"
    by code_simp
qed

section \<open>Properties: the bulk loader\<close>

lemma batchParams_total:
  assumes "\<forall>c. json_Marshal e c \<noteq> None"
  shows "\<exists>ps w'. batchParams e sz userID domain m w = (Some ps, w') \<and> length ps = m"
proof (induction m arbitrary: w)
  case 0
  show ?case by simp
next
  case (Suc m)
  obtain action content createdAt w1 where r: "run_state (row_inputs sz) w = ((action, content, createdAt), w1)"
    by (metis prod.exhaust)
  obtain bytes where b: "json_Marshal e content = Some bytes"
    using assms by (metis option.exhaust)
  obtain ps w2 where p: "batchParams e sz userID domain m w1 = (Some ps, w2)" and l: "length ps = m"
    using Suc.IH [of w1] by blast
  show ?case
    by (simp add: r b p l)
qed

lemma BulkInsertLogs_fails:
  assumes "st_faults s (st_copies s) = Some err"
  shows "BulkInsertLogs s arg = (Inl err, s\<lparr>st_copies := Suc (st_copies s)\<rparr>)"
  using assms by (simp add: BulkInsertLogs_def)

lemma BulkInsertLogs_succeeds:
  assumes "st_faults s (st_copies s) = None"
  shows "BulkInsertLogs s arg =
           (Inr (int (length arg)),
            s\<lparr>st_logs := st_logs s @ map (stored_row s) (List.enumerate (length (st_logs s)) arg),
              st_copies := Suc (st_copies s)\<rparr>)"
  using assms by (simp add: BulkInsertLogs_def)

text \<open>
  The loop from batch \<open>b\<close> on, when the next \<open>k\<close> copies succeed and the one after them
  fails: \<open>k\<close> full batches are stored, the failing copy is the last one submitted.
\<close>

lemma insertBatches_abort:
  assumes marshal: "\<forall>c. json_Marshal e c \<noteq> None"
    and range: "1 \<le> RecordCount req" "RecordCount req \<le> 2 ^ 63 - 1000"
  shows "int (b + k) < totalBatches (RecordCount req) \<Longrightarrow>
         st_faults (sv_storage sv) (st_copies (sv_storage sv) + k) = Some err \<Longrightarrow>
         (\<forall>j < k. st_faults (sv_storage sv) (st_copies (sv_storage sv) + j) = None) \<Longrightarrow>
         \<exists>sv' rows.
           insertBatches e req (map int [b ..< nat (totalBatches (RecordCount req))]) ti sv
             = (Inl (InternalServerError (''Failed to insert batch: '' @ err)), sv') \<and>
           sv_log sv' = sv_log sv @ map (\<lambda>j. LogProgress 1000 (int j + 1)) [b ..< b + k]
                          @ [LogFailedBatch (int (b + k)) err] \<and>
           st_copies (sv_storage sv') = st_copies (sv_storage sv) + k + 1 \<and>
           st_faults (sv_storage sv') = st_faults (sv_storage sv) \<and>
           st_logs (sv_storage sv') = st_logs (sv_storage sv) @ rows \<and>
           length rows = k * 1000"
proof (induction k arbitrary: b sv ti)
  case 0
  define n where "n = RecordCount req"
  define tb where "tb = nat (totalBatches n)"
  have b: "b < tb"
    using 0(1) by (simp add: tb_def n_def)
  have bs: "map int [b ..< tb] = int b # map int [Suc b ..< tb]"
    using b by (simp add: upt_conv_Cons)
  have tbq: "totalBatches n = (n + 999) div 1000"
    unfolding n_def by (rule totalBatches_eq [OF range])
  have size: "0 \<le> currentBatchSize n (int b)"
  proof (cases "int b < (n + 999) div 1000 - 1")
    case True
    then show ?thesis
      using currentBatchSize_full [OF range, of "int b"] by (simp add: n_def)
  next
    case False
    then have "int b = (n + 999) div 1000 - 1"
      using b tbq by (simp add: tb_def)
    then show ?thesis
      using currentBatchSize_last [OF range] div1000_bounds(3) [of n] range by (simp add: n_def)
  qed
  obtain userID domain w1 where u:
    "run_state (do { userID \<leftarrow> uuid_New; domain \<leftarrow> getRandomDomain;
                     State_Monad.return (userID, domain) }) (sv_world sv) = ((userID, domain), w1)"
    by (metis prod.exhaust)
  obtain ps w2 where p:
    "batchParams e (ContentSize req) userID domain (nat (currentBatchSize n (int b))) w1 = (Some ps, w2)"
    using batchParams_total [OF marshal] by blast
  have f: "BulkInsertLogs (sv_storage sv) ps
             = (Inl err, (sv_storage sv)\<lparr>st_copies := Suc (st_copies (sv_storage sv))\<rparr>)"
    using 0(2) by (intro BulkInsertLogs_fails) simp
  have "insertBatches e req (map int [b ..< tb]) ti sv =
          (Inl (InternalServerError (''Failed to insert batch: '' @ err)),
           sv\<lparr>sv_world := w2,
              sv_storage := (sv_storage sv)\<lparr>st_copies := Suc (st_copies (sv_storage sv))\<rparr>,
              sv_log := sv_log sv @ [LogFailedBatch (int b) err]\<rparr>)"
    unfolding bs using size u p f by (simp add: Let_def n_def [symmetric] del: run_state_bind)
  then show ?case
    by (simp add: tb_def n_def)
next
  case (Suc k)
  define n where "n = RecordCount req"
  define tb where "tb = nat (totalBatches n)"
  have b: "Suc b < tb"
    using Suc.prems(1) by (simp add: tb_def n_def)
  have bs: "map int [b ..< tb] = int b # map int [Suc b ..< tb]"
    using b by (simp add: upt_conv_Cons)
  have tbq: "totalBatches n = (n + 999) div 1000"
    unfolding n_def by (rule totalBatches_eq [OF range])
  have "int b < (n + 999) div 1000 - 1"
    using b tbq by (simp add: tb_def)
  then have size: "currentBatchSize n (int b) = 1000"
    using currentBatchSize_full [OF range, of "int b"] by (simp add: n_def)
  obtain userID domain w1 where u:
    "run_state (do { userID \<leftarrow> uuid_New; domain \<leftarrow> getRandomDomain;
                     State_Monad.return (userID, domain) }) (sv_world sv) = ((userID, domain), w1)"
    by (metis prod.exhaust)
  obtain ps w2 where p: "batchParams e (ContentSize req) userID domain 1000 w1 = (Some ps, w2)"
    and lp: "length ps = 1000"
    using batchParams_total [OF marshal] by blast
  define s1 where "s1 = (sv_storage sv)
      \<lparr>st_logs := st_logs (sv_storage sv)
          @ map (stored_row (sv_storage sv)) (List.enumerate (length (st_logs (sv_storage sv))) ps),
       st_copies := Suc (st_copies (sv_storage sv))\<rparr>"
  define sv1 where "sv1 = sv\<lparr>sv_world := w2, sv_storage := s1,
      sv_log := sv_log sv @ [LogProgress 1000 (int b + 1)]\<rparr>"
  have ok: "BulkInsertLogs (sv_storage sv) ps = (Inr 1000, s1)"
    using Suc.prems(3) lp unfolding s1_def by (subst BulkInsertLogs_succeeds) auto
  have step: "insertBatches e req (map int [b ..< tb]) ti sv
                = insertBatches e req (map int [Suc b ..< tb]) (int64 (ti + 1000)) sv1"
    unfolding bs using size u p ok
    by (simp add: Let_def n_def [symmetric] sv1_def del: run_state_bind)
  have c1: "st_copies (sv_storage sv1) = Suc (st_copies (sv_storage sv))"
    and f1: "st_faults (sv_storage sv1) = st_faults (sv_storage sv)"
    by (simp_all add: sv1_def s1_def)
  have a1: "int (Suc b + k) < totalBatches (RecordCount req)"
    using Suc.prems(1) by simp
  have a2: "st_faults (sv_storage sv1) (st_copies (sv_storage sv1) + k) = Some err"
    using Suc.prems(2) by (simp add: c1 f1)
  have a3: "\<forall>j < k. st_faults (sv_storage sv1) (st_copies (sv_storage sv1) + j) = None"
  proof (intro allI impI)
    fix j assume "j < k"
    then have "st_faults (sv_storage sv) (st_copies (sv_storage sv) + Suc j) = None"
      using Suc.prems(3) by (metis Suc_less_eq)
    then show "st_faults (sv_storage sv1) (st_copies (sv_storage sv1) + j) = None"
      by (simp add: c1 f1)
  qed
  obtain sv' rows where r:
    "insertBatches e req (map int [Suc b ..< nat (totalBatches (RecordCount req))]) (int64 (ti + 1000)) sv1
       = (Inl (InternalServerError (''Failed to insert batch: '' @ err)), sv')"
    "sv_log sv' = sv_log sv1 @ map (\<lambda>j. LogProgress 1000 (int j + 1)) [Suc b ..< Suc b + k]
                   @ [LogFailedBatch (int (Suc b + k)) err]"
    "st_copies (sv_storage sv') = st_copies (sv_storage sv1) + k + 1"
    "st_faults (sv_storage sv') = st_faults (sv_storage sv1)"
    "st_logs (sv_storage sv') = st_logs (sv_storage sv1) @ rows"
    "length rows = k * 1000"
    using Suc.IH [OF a1 a2 a3, of "int64 (ti + 1000)"] by blast
  have logs1: "st_logs (sv_storage sv1) = st_logs (sv_storage sv)
      @ map (stored_row (sv_storage sv)) (List.enumerate (length (st_logs (sv_storage sv))) ps)"
    by (simp add: sv1_def s1_def)
  have log1: "sv_log sv1 = sv_log sv @ [LogProgress 1000 (int b + 1)]"
    by (simp add: sv1_def)
  have "insertBatches e req (map int [b ..< nat (totalBatches (RecordCount req))]) ti sv
          = (Inl (InternalServerError (''Failed to insert batch: '' @ err)), sv')"
    using step r(1) by (simp add: tb_def n_def)
  moreover have "sv_log sv' = sv_log sv @ map (\<lambda>j. LogProgress 1000 (int j + 1)) [b ..< b + Suc k]
                   @ [LogFailedBatch (int (b + Suc k)) err]"
    unfolding r(2) log1 by (simp add: upt_conv_Cons)
  moreover have "st_copies (sv_storage sv') = st_copies (sv_storage sv) + Suc k + 1"
    by (simp add: r(3) c1)
  moreover have "st_faults (sv_storage sv') = st_faults (sv_storage sv)"
    by (simp add: r(4) f1)
  moreover have "st_logs (sv_storage sv') = st_logs (sv_storage sv)
      @ (map (stored_row (sv_storage sv)) (List.enumerate (length (st_logs (sv_storage sv))) ps) @ rows)"
    by (simp add: r(5) logs1)
  moreover have "length (map (stored_row (sv_storage sv))
      (List.enumerate (length (st_logs (sv_storage sv))) ps) @ rows) = Suc k * 1000"
    by (simp add: r(6) lp)
  ultimately show ?case
    by blast
qed

lemma bound_request_in_range:
  assumes "bindInitializeRequest req"
  shows "1 \<le> RecordCount req" and "RecordCount req \<le> 2 ^ 63 - 1000"
  using assms by (auto simp add: bindInitializeRequest_def)

text \<open>
  Claim C7. Take a request that binds, and let the copy of batch \<open>k\<close> be the first one the
  storage refuses, with error \<open>err\<close>. Then the loader answers 500 with the storage error
  in its message, and the process log ends with the failure line carrying the batch index
  \<open>k\<close> and the error, after one progress line for each of the batches \<open>0, \<dots>, k - 1\<close>.
  Exactly \<open>k + 1\<close> copies were submitted: the \<open>k\<close> that succeeded and the failing one, which
  is neither repeated nor followed by another. The table keeps what it held before and
  the \<open>k\<close> times 1000 rows of the batches stored before the failure.
\<close>

theorem failed_batch_aborts_load:
  assumes valid: "bindInitializeRequest req"
    and marshal: "\<forall>c. json_Marshal e c \<noteq> None"
    and inrange: "int k < totalBatches (RecordCount req)"
    and fault: "st_faults (sv_storage sv) (st_copies (sv_storage sv) + k) = Some err"
    and before: "\<forall>j < k. st_faults (sv_storage sv) (st_copies (sv_storage sv) + j) = None"
  shows "\<exists>sv' rows.
           InitializeData e req sv
             = (Inl (InternalServerError (''Failed to insert batch: '' @ err)), sv') \<and>
           sv_log sv' = sv_log sv @ [LogGenerating (RecordCount req) (ContentSize req)]
                          @ map (\<lambda>j. LogProgress 1000 (int j + 1)) [0 ..< k]
                          @ [LogFailedBatch (int k) err] \<and>
           st_copies (sv_storage sv') = st_copies (sv_storage sv) + k + 1 \<and>
           st_logs (sv_storage sv') = st_logs (sv_storage sv) @ rows \<and>
           length rows = k * 1000"
proof -
  obtain start w1 where t: "run_state time_Now (sv_world sv) = (start, w1)"
    by (metis prod.exhaust)
  define sv0 where "sv0 = sv\<lparr>sv_world := w1,
      sv_log := sv_log sv @ [LogGenerating (RecordCount req) (ContentSize req)]\<rparr>"
  have s0: "sv_storage sv0 = sv_storage sv"
    by (simp add: sv0_def)
  have a1: "int (0 + k) < totalBatches (RecordCount req)"
    using inrange by simp
  have a2: "st_faults (sv_storage sv0) (st_copies (sv_storage sv0) + k) = Some err"
    using fault by (simp add: s0)
  have a3: "\<forall>j < k. st_faults (sv_storage sv0) (st_copies (sv_storage sv0) + j) = None"
    using before by (simp add: s0)
  obtain sv' rows where r:
    "insertBatches e req (map int [0 ..< nat (totalBatches (RecordCount req))]) 0 sv0
       = (Inl (InternalServerError (''Failed to insert batch: '' @ err)), sv')"
    "sv_log sv' = sv_log sv0 @ map (\<lambda>j. LogProgress 1000 (int j + 1)) [0 ..< 0 + k]
                   @ [LogFailedBatch (int (0 + k)) err]"
    "st_copies (sv_storage sv') = st_copies (sv_storage sv0) + k + 1"
    "st_logs (sv_storage sv') = st_logs (sv_storage sv0) @ rows"
    "length rows = k * 1000"
    using insertBatches_abort [OF marshal bound_request_in_range [OF valid] a1 a2 a3, of 0] by blast
  have "InitializeData e req sv = (Inl (InternalServerError (''Failed to insert batch: '' @ err)), sv')"
    using valid t r(1) by (simp add: InitializeData_def batchIndices_def sv0_def)
  moreover have "sv_log sv' = sv_log sv @ [LogGenerating (RecordCount req) (ContentSize req)]
                          @ map (\<lambda>j. LogProgress 1000 (int j + 1)) [0 ..< k]
                          @ [LogFailedBatch (int k) err]"
    using r(2) by (simp add: sv0_def)
  ultimately show ?thesis
    using r(3) r(4) r(5) unfolding s0 by blast
qed

lemma ten_batches: "totalBatches (RecordCount ten_thousand_small) = 10"
  by code_simp

theorem failed_batch_aborts_load_witness:
  "bindInitializeRequest ten_thousand_small \<and>
   (\<forall>c. json_Marshal example_env c \<noteq> None) \<and>
   int 3 < totalBatches (RecordCount ten_thousand_small) \<and>
   st_faults (sv_storage flaky_server) 0 = None \<and>
   st_faults (sv_storage flaky_server) 1 = None \<and>
   st_faults (sv_storage flaky_server) 2 = None \<and>
   st_faults (sv_storage flaky_server) 3 = Some ''connection reset'' \<and>
   (\<exists>sv' rows.
      InitializeData example_env ten_thousand_small flaky_server
        = (Inl (InternalServerError ''Failed to insert batch: connection reset''), sv') \<and>
      sv_log sv' = [LogGenerating 10000 ''small'', LogProgress 1000 1, LogProgress 1000 2,
                    LogProgress 1000 3, LogFailedBatch 3 ''connection reset''] \<and>
      st_copies (sv_storage sv') = 4 \<and>
      st_logs (sv_storage sv') = rows \<and>
      length rows = 3000)"
proof -
  have valid: "bindInitializeRequest ten_thousand_small"
    by (simp add: bindInitializeRequest_def ten_thousand_small_def)
  have marshal: "\<forall>c. json_Marshal example_env c \<noteq> None"
    by (simp add: example_env_def)
  have inrange: "int 3 < totalBatches (RecordCount ten_thousand_small)"
    by (simp add: ten_batches)
  have f: "st_faults (sv_storage flaky_server) i = (if i = 3 then Some ''connection reset'' else None)" for i
    by (simp add: flaky_server_def flaky_storage_def)
  have c: "st_copies (sv_storage flaky_server) = 0" and l: "st_logs (sv_storage flaky_server) = []"
    and g: "sv_log flaky_server = []"
    by (simp_all add: flaky_server_def flaky_storage_def)
  have fault: "st_faults (sv_storage flaky_server) (st_copies (sv_storage flaky_server) + 3)
                 = Some ''connection reset''"
    by (simp add: f c)
  have before: "\<forall>j < 3. st_faults (sv_storage flaky_server) (st_copies (sv_storage flaky_server) + j) = None"
    by (simp add: f c)
  have u: "[0 ..< 3] = [0, 1, 2]"
    by (simp add: upt_conv_Cons)
  have "\<exists>sv' rows.
      InitializeData example_env ten_thousand_small flaky_server
        = (Inl (InternalServerError ''Failed to insert batch: connection reset''), sv') \<and>
      sv_log sv' = [LogGenerating 10000 ''small'', LogProgress 1000 1, LogProgress 1000 2,
                    LogProgress 1000 3, LogFailedBatch 3 ''connection reset''] \<and>
      st_copies (sv_storage sv') = 4 \<and>
      st_logs (sv_storage sv') = rows \<and>
      length rows = 3000"
    using failed_batch_aborts_load [OF valid marshal inrange fault before]
    by (simp add: c l g u ten_thousand_small_def)
  then show ?thesis
    using valid marshal inrange f by simp
qed

end
